theory Spec2Isabelle
  imports Main "HOL-Library.Word" "HOL-Library.Char_ord" "HOL-Library.List_Lexorder"
    "HOL-Library.AList" "HOL-Library.Multiset"
begin

section \<open>Bytes, digests and errors\<close>

type_synonym byte = "8 word"
type_synonym bytes = "byte list"

text \<open>\<^verbatim>\<open>sha1.Size\<close> and \<open>sha256.Size\<close> of the Go standard library.\<close>

definition sha1_Size :: nat where
  "sha1_Size = 20"

definition sha256_Size :: nat where
  "sha256_Size = 32"

text \<open>Go's \<^verbatim>\<open>make([]byte, n)\<close>: n zero bytes.\<close>

definition make_bytes :: "nat \<Rightarrow> bytes" where
  "make_bytes n = replicate n 0"

text \<open>Go's builtin \<^verbatim>\<open>copy(dst, src)\<close>: the first \<open>min (len dst) (len src)\<close> elements
  of \<open>dst\<close> are overwritten, the rest of \<open>dst\<close> stays.\<close>

definition go_copy :: "'a list \<Rightarrow> 'a list \<Rightarrow> 'a list" where
  "go_copy dst src = take (length dst) src @ drop (length src) dst"

datatype MDStatusT =
    MDStatusInvalid
  | MDStatusUnvetted
  | MDStatusVetted
  | MDStatusCensored
  | MDStatusIterationUnvetted
  | MDStatusLocked

text \<open>The codes of \<^verbatim>\<open>backend.ContentVerificationError\<close> that gitbe.go uses.\<close>

datatype ErrorStatusT =
    ErrorStatusInvalidMDID
  | ErrorStatusDuplicateMDID
  | ErrorStatusInvalidFilename
  | ErrorStatusEmpty
  | ErrorStatusDuplicateFilename
  | ErrorStatusInvalidFileDigest
  | ErrorStatusInvalidBase64
  | ErrorStatusInvalidMIMEType
  | ErrorStatusUnsupportedMIMEType
  | ErrorStatusFileNotFound

text \<open>Errors as values: a Go panic, a \<^verbatim>\<open>fmt.Errorf\<close> (or library) error, the failure of
  an external call, and the error values and types of the packages \<open>gitbe\<close> and
  \<open>backend\<close>.\<close>

datatype error =
    Panic string
  | Errorf string
  | ErrExternal string
  | ErrNotExist
  | errNothingToDo
  | ErrRecordNotFound
  | ErrRecordLocked
  | ErrNoChanges
  | ErrShutdown
  | StateTransitionError MDStatusT MDStatusT
  | ContentVerificationError ErrorStatusT "string list"

section \<open>Extended digests\<close>

text \<open>\<^verbatim>\<open>extendSHA1\<close> (gitbe.go 130-137): panics unless the input has 20 bytes.\<close>

definition extendSHA1 :: "bytes \<Rightarrow> error + bytes" where
  "extendSHA1 d =
     (if length d \<noteq> sha1_Size then Inl (Panic ''invalid sha1 length'')
      else Inr (go_copy (make_bytes sha256_Size) d))"

text \<open>\<^verbatim>\<open>unextendSHA256\<close> (gitbe.go 140-153): panics unless the input has 32 bytes and
  the bytes from index 20 on are all zero.\<close>

definition unextendSHA256 :: "bytes \<Rightarrow> error + bytes" where
  "unextendSHA256 d =
     (if length d \<noteq> sha256_Size then Inl (Panic ''invalid sha256 length'')
      else if list_ex (\<lambda>x. x \<noteq> 0) (drop sha1_Size d) then Inl (Panic ''invalid extended sha256'')
      else Inr (go_copy (make_bytes sha1_Size) d))"

section \<open>Hexadecimal strings and string helpers\<close>

text \<open>\<^verbatim>\<open>hex.EncodeToString\<close> and the \<open>%x\<close> verb on a byte array: two lowercase digits a byte.\<close>

definition hexdigit :: "nat \<Rightarrow> char" where
  "hexdigit n = ''0123456789abcdef'' ! n"

definition hex_byte :: "byte \<Rightarrow> string" where
  "hex_byte b = [hexdigit (unat b div 16), hexdigit (unat b mod 16)]"

definition hex_EncodeToString :: "bytes \<Rightarrow> string" where
  "hex_EncodeToString bs = concat (map hex_byte bs)"

text \<open>\<^verbatim>\<open>hex.DecodeString\<close>: both cases of the letters are accepted; an odd length or a
  character that is no hexadecimal digit is an error (\<open>None\<close>).\<close>

definition hexval :: "char \<Rightarrow> nat option" where
  "hexval c =
     (let n = (of_char c :: nat) in
      if 48 \<le> n \<and> n \<le> 57 then Some (n - 48)
      else if 97 \<le> n \<and> n \<le> 102 then Some (n - 87)
      else if 65 \<le> n \<and> n \<le> 70 then Some (n - 55)
      else None)"

fun hex_DecodeString :: "string \<Rightarrow> bytes option" where
  "hex_DecodeString [] = Some []"
| "hex_DecodeString [c] = None"
| "hex_DecodeString (a # b # cs) =
     (case hexval a of None \<Rightarrow> None
      | Some x \<Rightarrow>
        (case hexval b of None \<Rightarrow> None
         | Some y \<Rightarrow>
           (case hex_DecodeString cs of None \<Rightarrow> None
            | Some r \<Rightarrow> Some (of_nat (16 * x + y) # r))))"

text \<open>\<^verbatim>\<open>strconv.FormatUint(n, 10)\<close>, and the verb \<open>%02v\<close> on an unsigned integer.\<close>

function decimal :: "nat \<Rightarrow> string" where
  "decimal n = (if n < 10 then [char_of (48 + n)] else decimal (n div 10) @ [char_of (48 + n mod 10)])"
  by pat_completeness auto
termination
  by (relation "measure id") auto

definition decimal_int :: "int \<Rightarrow> string" where
  "decimal_int n = (if n < 0 then ''-'' @ decimal (nat (- n)) else decimal (nat n))"

definition pad2 :: "string \<Rightarrow> string" where
  "pad2 s = replicate (2 - length s) (CHR ''0'') @ s"

text \<open>\<^verbatim>\<open>filepath.Base\<close> (Unix): trailing slashes are dropped, then the last element is
  returned; the empty path gives a dot, a path of slashes gives a slash.\<close>

definition filepath_Base :: "string \<Rightarrow> string" where
  "filepath_Base p =
     (if p = [] then ''.''
      else (let q = dropWhile (\<lambda>c. c = CHR ''/'') (rev p) in
            if q = [] then ''/'' else rev (takeWhile (\<lambda>c. c \<noteq> CHR ''/'') q)))"

definition newline :: string where
  "newline = [CHR 0x0A]"

text \<open>\<^verbatim>\<open>strings.SplitN(line, " ", 2)\<close>: the line itself when it has no space, else the
  text before the first space and the text after it.\<close>

definition strings_SplitN2 :: "string \<Rightarrow> string list" where
  "strings_SplitN2 l =
     (if CHR '' '' \<in> set l
      then [takeWhile (\<lambda>c. c \<noteq> CHR '' '') l, tl (dropWhile (\<lambda>c. c \<noteq> CHR '' '') l)]
      else [l])"

text \<open>\<^verbatim>\<open>strings.Trim(s, cutset)\<close>.\<close>

definition strings_Trim :: "string \<Rightarrow> string \<Rightarrow> string" where
  "strings_Trim s cutset =
     rev (dropWhile (\<lambda>c. c \<in> set cutset) (rev (dropWhile (\<lambda>c. c \<in> set cutset) s)))"

definition markerAnchor :: string where
  "markerAnchor = ''Anchor''"

definition markerAnchorConfirmation :: string where
  "markerAnchorConfirmation = ''Anchor confirmation''"

text \<open>Modelled from the spec: the variable \<^verbatim>\<open>regexAnchorConfirmation\<close> is declared outside
  gitbe.go. The spec (4.5, Markers and parsing): the subject begins with the literal
  \<open>Anchor confirmation \<close> followed by 64 hex characters.\<close>

definition regexAnchorConfirmation_MatchString :: "string \<Rightarrow> bool" where
  "regexAnchorConfirmation_MatchString s =
     (let m = markerAnchorConfirmation @ '' ''; r = take 64 (drop (length m) s)
      in take (length m) s = m \<and> length r = 64 \<and> list_all (\<lambda>c. hexval c \<noteq> None) r)"

section \<open>The data model\<close>

text \<open>\<^verbatim>\<open>backend.RecordMetadata\<close>; \<open>Version\<close> is a Go \<open>uint\<close> (64 bits here).\<close>

record RecordMetadata =
  Version :: "64 word"
  Status :: MDStatusT
  Merkle :: bytes
  Timestamp :: int
  Token :: bytes

text \<open>A record directory \<open>repo/id/\<close>: \<open>recordmetadata.json\<close> (absent: \<open>None\<close>), the metadata
  stream files by stream id, and the directory \<open>payload/\<close> (absent: \<open>None\<close>) with its files
  by name.\<close>

record recdir =
  rd_md :: "RecordMetadata option"
  rd_streams :: "(nat \<times> string) list"
  rd_payload :: "(string \<times> bytes) list option"

text \<open>The files of a repository: the record directories by id, the audit trail file
  (absent: \<open>None\<close>) and the files of the directory \<open>anchors/\<close>.\<close>

record tree =
  t_records :: "(string \<times> recdir) list"
  t_audit :: "string option"
  t_anchors :: "(string \<times> string) list"

record commit =
  c_digest :: bytes
  c_message :: string
  c_tree :: tree

text \<open>A repository: each branch with its history (newest commit first), the branch that is
  checked out, and the working tree.\<close>

record repo =
  r_branches :: "(string \<times> commit list) list"
  r_head :: string
  r_wt :: tree

datatype repoid = Unvetted | Vetted

text \<open>The fields of \<^verbatim>\<open>gitBackEnd\<close> that change, the Anchor State DB (the digest the next
  anchor range starts after, the unconfirmed set), and the digest batches sent to the
  timestamp authority.\<close>

record world =
  w_unvetted :: repo
  w_vetted :: repo
  w_lock :: bool
  w_shutdown :: bool
  w_testmode :: bool
  w_testAnchors :: "(string \<times> bool) list"
  w_lastAnchor :: bytes
  w_unconfirmed :: "bytes list"
  w_timestamped :: "bytes list list"

text \<open>A call that leaves the process: a git invocation with its arguments, a filesystem
  call with its path, the lock, the database, the timestamp authority.\<close>

datatype ioop =
    OpGit repoid "string list"
  | OpFS string string
  | OpLock
  | OpRandom
  | OpDB string
  | OpNet string

record ChainInformation =
  ChainTimestamp :: int
  Transaction :: string

record VerifyDigest =
  vd_Digest :: string
  vd_Result :: int
  vd_ChainInformation :: ChainInformation

text \<open>What the process cannot decide: whether an external call fails (in a given state),
  the clock, the random token, and the library functions that are not part of the
  repository (SHA-256, the Merkle tree over a sorted digest array, base64, MIME detection,
  filename sanitising, commit ids, the rebase engine, the authority's verify reply, JSON
  encoding) with the constant \<^verbatim>\<open>pd.MetadataStreamsMax\<close>.\<close>

record ext =
  x_fails :: "ioop \<Rightarrow> world \<Rightarrow> bool"
  x_now :: int
  x_random :: bytes
  x_sha256 :: "bytes \<Rightarrow> bytes"
  x_merkle_tree :: "bytes list \<Rightarrow> bytes"
  x_base64 :: "string \<Rightarrow> bytes option"
  x_detect_mime :: "bytes \<Rightarrow> string"
  x_mime_valid :: "string \<Rightarrow> bool"
  x_sanitize :: "string \<Rightarrow> string"
  x_commit_id :: "string \<Rightarrow> tree \<Rightarrow> commit list \<Rightarrow> bytes"
  x_rebase :: "commit list \<Rightarrow> commit list \<Rightarrow> commit list option"
  x_verify :: "string list \<Rightarrow> error + VerifyDigest list"
  x_json :: "ChainInformation \<Rightarrow> string"
  x_base64_encode :: "bytes \<Rightarrow> string"
  x_MetadataStreamsMax :: nat

definition repo_of :: "repoid \<Rightarrow> world \<Rightarrow> repo" where
  "repo_of p w = (case p of Unvetted \<Rightarrow> w_unvetted w | Vetted \<Rightarrow> w_vetted w)"

definition set_repo :: "repoid \<Rightarrow> repo \<Rightarrow> world \<Rightarrow> world" where
  "set_repo p r w = (case p of Unvetted \<Rightarrow> w\<lparr>w_unvetted := r\<rparr> | Vetted \<Rightarrow> w\<lparr>w_vetted := r\<rparr>)"

section \<open>The versioned store\<close>

text \<open>Modelled from the spec: the git wrappers (\<^verbatim>\<open>gitCheckout\<close>, \<open>gitCommit\<close>, ...) are
  defined outside gitbe.go. The spec (4.1) lists the capability: checkout, new branch,
  delete branch, add, remove, commit, stash, rebase, push, pull, diff, log, fsck, last
  commit digest, list branches. Each wrapper fails when the external call fails; the
  index is not told apart from the working tree.\<close>

definition empty_tree :: tree where
  "empty_tree = \<lparr>t_records = [], t_audit = None, t_anchors = []\<rparr>"

definition history :: "repo \<Rightarrow> string \<Rightarrow> commit list" where
  "history r b = (case map_of (r_branches r) b of None \<Rightarrow> [] | Some h \<Rightarrow> h)"

definition head_tree :: "repo \<Rightarrow> tree" where
  "head_tree r = (case history r (r_head r) of [] \<Rightarrow> empty_tree | c # _ \<Rightarrow> c_tree c)"

definition gitLastDigest :: "ext \<Rightarrow> repoid \<Rightarrow> world \<Rightarrow> error + bytes" where
  "gitLastDigest X p w =
     (if x_fails X (OpGit p [''log'', ''--pretty=oneline'', ''-n 1'']) w
      then Inl (ErrExternal ''git log'')
      else (case history (repo_of p w) (r_head (repo_of p w)) of
              [] \<Rightarrow> Inl (ErrExternal ''git log: no commits'')
            | c # _ \<Rightarrow> Inr (c_digest c)))"

text \<open>The subject of a commit message is its first line.\<close>

definition subject :: "string \<Rightarrow> string" where
  "subject m = takeWhile (\<lambda>c. c \<noteq> CHR 0x0A) m"

definition oneline :: "commit \<Rightarrow> string" where
  "oneline c = hex_EncodeToString (c_digest c) @ '' '' @ subject (c_message c)"

text \<open>\<^verbatim>\<open>git log --pretty=oneline\<close>, with the range \<open>a..b\<close> when one is given: the commits
  of the current branch that are newer than \<open>a\<close>.\<close>

definition gitLog :: "ext \<Rightarrow> repoid \<Rightarrow> (bytes \<times> bytes) option \<Rightarrow> world \<Rightarrow> error + string list" where
  "gitLog X p rng w =
     (let h = history (repo_of p w) (r_head (repo_of p w)) in
      case rng of
        None \<Rightarrow>
          if x_fails X (OpGit p [''log'', ''--pretty=oneline'']) w
          then Inl (ErrExternal ''git log'')
          else Inr (map oneline h)
      | Some (a, b) \<Rightarrow>
          if x_fails X (OpGit p [''log'', ''--pretty=oneline'',
               hex_EncodeToString a @ ''..'' @ hex_EncodeToString b]) w
             \<or> a \<notin> set (map c_digest h)
          then Inl (ErrExternal ''git log'')
          else Inr (map oneline (takeWhile (\<lambda>c. c_digest c \<noteq> a) h)))"

text \<open>A step that may fail and may change the state: the error or the result, and the
  state after it (a Go function that returns an error keeps what it has written).\<close>

type_synonym 'a io = "world \<Rightarrow> (error + 'a) \<times> world"

definition bindE :: "'a io \<Rightarrow> ('a \<Rightarrow> 'b io) \<Rightarrow> 'b io" where
  "bindE m f w = (case m w of (Inl e, w') \<Rightarrow> (Inl e, w') | (Inr a, w') \<Rightarrow> f a w')"

definition wt :: "repoid \<Rightarrow> world \<Rightarrow> tree" where
  "wt p w = r_wt (repo_of p w)"

definition set_wt :: "repoid \<Rightarrow> tree \<Rightarrow> world \<Rightarrow> world" where
  "set_wt p t w = set_repo p ((repo_of p w)\<lparr>r_wt := t\<rparr>) w"

definition branch_tree :: "repo \<Rightarrow> string \<Rightarrow> tree" where
  "branch_tree r b = (case history r b of [] \<Rightarrow> empty_tree | c # _ \<Rightarrow> c_tree c)"

definition dirty :: "repo \<Rightarrow> bool" where
  "dirty r = (r_wt r \<noteq> head_tree r)"

text \<open>\<^verbatim>\<open>git checkout b\<close>: fails on an unknown branch and on uncommitted changes.\<close>

definition gitCheckout :: "ext \<Rightarrow> repoid \<Rightarrow> string \<Rightarrow> unit io" where
  "gitCheckout X p b w =
     (let r = repo_of p w in
      if x_fails X (OpGit p [''checkout'', b]) w \<or> map_of (r_branches r) b = None \<or> dirty r
      then (Inl (ErrExternal ''git checkout''), w)
      else (Inr (), set_repo p (r\<lparr>r_head := b, r_wt := branch_tree r b\<rparr>) w))"

text \<open>\<^verbatim>\<open>git checkout -b b\<close>: the new branch starts at the current commit and the working
  tree stays as it is.\<close>

definition gitNewBranch :: "ext \<Rightarrow> repoid \<Rightarrow> string \<Rightarrow> unit io" where
  "gitNewBranch X p b w =
     (let r = repo_of p w in
      if x_fails X (OpGit p [''checkout'', ''-b'', b]) w \<or> map_of (r_branches r) b \<noteq> None
      then (Inl (ErrExternal ''git checkout -b''), w)
      else (Inr (), set_repo p
              (r\<lparr>r_branches := r_branches r @ [(b, history r (r_head r))], r_head := b\<rparr>) w))"

text \<open>\<^verbatim>\<open>git branch -D b\<close>: fails on an unknown branch and on the branch checked out.\<close>

definition gitBranchDelete :: "ext \<Rightarrow> repoid \<Rightarrow> string \<Rightarrow> unit io" where
  "gitBranchDelete X p b w =
     (let r = repo_of p w in
      if x_fails X (OpGit p [''branch'', ''-D'', b]) w \<or> map_of (r_branches r) b = None
         \<or> b = r_head r
      then (Inl (ErrExternal ''git branch -D''), w)
      else (Inr (), set_repo p (r\<lparr>r_branches := AList.delete b (r_branches r)\<rparr>) w))"

definition gitBranches :: "ext \<Rightarrow> repoid \<Rightarrow> world \<Rightarrow> error + string list" where
  "gitBranches X p w =
     (if x_fails X (OpGit p [''branch'']) w then Inl (ErrExternal ''git branch'')
      else Inr (map fst (r_branches (repo_of p w))))"

definition gitAdd :: "ext \<Rightarrow> repoid \<Rightarrow> string \<Rightarrow> unit io" where
  "gitAdd X p filename w =
     (if x_fails X (OpGit p [''add'', filename]) w then (Inl (ErrExternal ''git add''), w)
      else (Inr (), w))"

text \<open>\<^verbatim>\<open>git commit -m msg\<close>: fails when there is nothing to commit.\<close>

definition gitCommit :: "ext \<Rightarrow> repoid \<Rightarrow> string \<Rightarrow> unit io" where
  "gitCommit X p msg w =
     (let r = repo_of p w in
      if x_fails X (OpGit p [''commit'', ''-m'', msg]) w \<or> \<not> dirty r
      then (Inl (ErrExternal ''git commit''), w)
      else (Inr (), set_repo p
              (r\<lparr>r_branches := AList.update (r_head r)
                    (\<lparr>c_digest = x_commit_id X msg (r_wt r) (history r (r_head r)),
                      c_message = msg, c_tree = r_wt r\<rparr> # history r (r_head r))
                    (r_branches r)\<rparr>) w))"

text \<open>\<^verbatim>\<open>git stash\<close>: the uncommitted changes are taken out of the working tree.\<close>

definition gitStash :: "ext \<Rightarrow> repoid \<Rightarrow> unit io" where
  "gitStash X p w =
     (let r = repo_of p w in
      if x_fails X (OpGit p [''stash'']) w then (Inl (ErrExternal ''git stash''), w)
      else (Inr (), set_repo p (r\<lparr>r_wt := head_tree r\<rparr>) w))"

text \<open>\<^verbatim>\<open>git diff\<close>: no output lines when the working tree has no uncommitted change.\<close>

definition gitDiff :: "ext \<Rightarrow> repoid \<Rightarrow> world \<Rightarrow> error + string list" where
  "gitDiff X p w =
     (if x_fails X (OpGit p [''diff'']) w then Inl (ErrExternal ''git diff'')
      else Inr (if dirty (repo_of p w) then [''diff''] else []))"

definition gitHasChanges :: "ext \<Rightarrow> repoid \<Rightarrow> world \<Rightarrow> bool" where
  "gitHasChanges X p w = dirty (repo_of p w)"

definition gitFsck :: "ext \<Rightarrow> repoid \<Rightarrow> world \<Rightarrow> error + string list" where
  "gitFsck X p w =
     (if x_fails X (OpGit p [''fsck'', ''--full'', ''--strict'']) w then Inl (ErrExternal ''git fsck'')
      else Inr [])"

text \<open>\<^verbatim>\<open>git pull --ff-only --rebase\<close> in the staging tier, whose origin is the publication
  tier: master is fast-forwarded to the origin's master.\<close>

definition gitPull :: "ext \<Rightarrow> repoid \<Rightarrow> bool \<Rightarrow> unit io" where
  "gitPull X p fastForward w =
     (let r = repo_of p w; local = history r ''master''; remote = history (w_vetted w) ''master'' in
      if x_fails X (OpGit p [''pull'', ''--ff-only'', ''--rebase'']) w \<or> p \<noteq> Unvetted
         \<or> r_head r \<noteq> ''master'' \<or> dirty r
         \<or> drop (length remote - length local) remote \<noteq> local
      then (Inl (ErrExternal ''git pull''), w)
      else (Inr (), set_repo p
              (r\<lparr>r_branches := AList.update ''master'' remote (r_branches r),
                 r_wt := (case remote of [] \<Rightarrow> empty_tree | c # _ \<Rightarrow> c_tree c)\<rparr>) w))"

text \<open>\<^verbatim>\<open>git push --set-upstream origin b\<close> from the staging tier.\<close>

definition gitPush :: "ext \<Rightarrow> repoid \<Rightarrow> string \<Rightarrow> string \<Rightarrow> bool \<Rightarrow> unit io" where
  "gitPush X p remote b upstream w =
     (let r = repo_of p w in
      if x_fails X (OpGit p [''push'', ''--set-upstream'', remote, b]) w \<or> p \<noteq> Unvetted
         \<or> map_of (r_branches r) b = None
      then (Inl (ErrExternal ''git push''), w)
      else (Inr (), w\<lparr>w_vetted := (w_vetted w)
              \<lparr>r_branches := AList.update b (history r b) (r_branches (w_vetted w))\<rparr>\<rparr>))"

text \<open>\<^verbatim>\<open>git rebase b\<close>: the current branch is replayed onto \<open>b\<close> by the rebase engine.\<close>

definition gitRebase :: "ext \<Rightarrow> repoid \<Rightarrow> string \<Rightarrow> unit io" where
  "gitRebase X p b w =
     (let r = repo_of p w in
      if x_fails X (OpGit p [''rebase'', b]) w \<or> map_of (r_branches r) b = None \<or> dirty r
      then (Inl (ErrExternal ''git rebase''), w)
      else (case x_rebase X (history r b) (history r (r_head r)) of
              None \<Rightarrow> (Inl (ErrExternal ''git rebase''), w)
            | Some h \<Rightarrow>
                (Inr (), set_repo p
                   (r\<lparr>r_branches := AList.update (r_head r) h (r_branches r),
                      r_wt := (case h of [] \<Rightarrow> empty_tree | c # _ \<Rightarrow> c_tree c)\<rparr>) w)))"

text \<open>\<^verbatim>\<open>git rm id/payload/name\<close>: fails on a file that is not there; a directory left
  empty goes with its last file.\<close>

definition gitRm :: "ext \<Rightarrow> repoid \<Rightarrow> string \<Rightarrow> string \<Rightarrow> unit io" where
  "gitRm X p i v w =
     (if x_fails X (OpGit p [''rm'', i @ ''/payload/'' @ v]) w
      then (Inl (ErrExternal ''git rm''), w)
      else (case map_of (t_records (wt p w)) i of
              None \<Rightarrow> (Inl (ErrExternal ''git rm''), w)
            | Some d \<Rightarrow>
               (case rd_payload d of
                  None \<Rightarrow> (Inl (ErrExternal ''git rm''), w)
                | Some fs \<Rightarrow>
                    if map_of fs v = None then (Inl (ErrExternal ''git rm''), w)
                    else (Inr (), set_wt p ((wt p w)\<lparr>t_records := AList.update i
                            (d\<lparr>rd_payload := (if AList.delete v fs = [] then None
                                                else Some (AList.delete v fs))\<rparr>)
                            (t_records (wt p w))\<rparr>) w))))"

text \<open>The lock of \<^verbatim>\<open>gitBackEnd\<close>: taking it fails when the call fails or the lock is held
  (a timeout); the deferred unlock runs on every return after the lock was taken.\<close>

definition lock_Lock :: "ext \<Rightarrow> unit io" where
  "lock_Lock X w =
     (if x_fails X OpLock w \<or> w_lock w then (Inl (ErrExternal ''lock''), w)
      else (Inr (), w\<lparr>w_lock := True\<rparr>))"

definition with_lock :: "ext \<Rightarrow> 'a io \<Rightarrow> 'a io" where
  "with_lock X body w =
     (case lock_Lock X w of
        (Inl e, w') \<Rightarrow> (Inl e, w')
      | (Inr _, w') \<Rightarrow> (case body w' of (r, w'') \<Rightarrow> (r, w''\<lparr>w_lock := False\<rparr>)))"

section \<open>Files of a record\<close>

text \<open>\<^verbatim>\<open>os.MkdirAll(unvetted/id/payload)\<close>.\<close>

definition os_MkdirAll_payload :: "ext \<Rightarrow> repoid \<Rightarrow> string \<Rightarrow> unit io" where
  "os_MkdirAll_payload X p i w =
     (if x_fails X (OpFS ''MkdirAll'' (i @ ''/payload'')) w then (Inl (ErrExternal ''mkdir''), w)
      else (Inr (), set_wt p ((wt p w)\<lparr>t_records := AList.update i
              (case map_of (t_records (wt p w)) i of
                 None \<Rightarrow> \<lparr>rd_md = None, rd_streams = [], rd_payload = Some []\<rparr>
               | Some d \<Rightarrow> (case rd_payload d of None \<Rightarrow> d\<lparr>rd_payload := Some []\<rparr> | Some _ \<Rightarrow> d))
              (t_records (wt p w))\<rparr>) w))"

text \<open>\<^verbatim>\<open>ioutil.WriteFile(id/payload/name, payload)\<close>: fails when the directory is not
  there.\<close>

definition WriteFile_payload :: "ext \<Rightarrow> repoid \<Rightarrow> string \<Rightarrow> string \<Rightarrow> bytes \<Rightarrow> unit io" where
  "WriteFile_payload X p i n b w =
     (if x_fails X (OpFS ''WriteFile'' (i @ ''/payload/'' @ n)) w
      then (Inl (ErrExternal ''write''), w)
      else (case map_of (t_records (wt p w)) i of
              None \<Rightarrow> (Inl (ErrExternal ''write''), w)
            | Some d \<Rightarrow>
               (case rd_payload d of
                  None \<Rightarrow> (Inl (ErrExternal ''write''), w)
                | Some fs \<Rightarrow>
                    (Inr (), set_wt p ((wt p w)\<lparr>t_records := AList.update i
                       (d\<lparr>rd_payload := Some (AList.update n b fs)\<rparr>) (t_records (wt p w))\<rparr>) w))))"

text \<open>The name of a metadata stream file, as \<^verbatim>\<open>newRecord\<close> and \<open>updateMetadata\<close> build it.\<close>

definition defaultMDFilenameSuffix :: string where
  "defaultMDFilenameSuffix = ''.metadata.txt''"

definition defaultRecordMetadataFilename :: string where
  "defaultRecordMetadataFilename = ''recordmetadata.json''"

definition mdstream_filename :: "string \<Rightarrow> nat \<Rightarrow> string" where
  "mdstream_filename i mdid = i @ ''/'' @ pad2 (decimal mdid) @ defaultMDFilenameSuffix"

text \<open>Writing or appending to the metadata stream file of a stream id; appending creates
  the file when it is not there (\<^verbatim>\<open>O_CREATE|O_APPEND\<close>).\<close>

definition write_stream :: "ext \<Rightarrow> repoid \<Rightarrow> string \<Rightarrow> nat \<Rightarrow> string \<Rightarrow> bool \<Rightarrow> unit io" where
  "write_stream X p i mdid s app w =
     (if x_fails X (OpFS (if app then ''OpenFile'' else ''WriteFile'') (i @ ''/metadata'')) w
      then (Inl (ErrExternal ''write''), w)
      else (case map_of (t_records (wt p w)) i of
              None \<Rightarrow> (Inl (ErrExternal ''write''), w)
            | Some d \<Rightarrow>
                (Inr (), set_wt p ((wt p w)\<lparr>t_records := AList.update i
                   (d\<lparr>rd_streams := AList.update mdid
                        (if app then (case map_of (rd_streams d) mdid of None \<Rightarrow> [] | Some old \<Rightarrow> old) @ s
                         else s)
                        (rd_streams d)\<rparr>) (t_records (wt p w))\<rparr>) w)))"

text \<open>\<^verbatim>\<open>os.Stat(repo/id)\<close>: the directory is there, or it is not
  (\<open>os.IsNotExist\<close>), or the call fails otherwise.\<close>

definition os_Stat_dir :: "ext \<Rightarrow> repoid \<Rightarrow> string \<Rightarrow> world \<Rightarrow> error + unit" where
  "os_Stat_dir X p i w =
     (if x_fails X (OpFS ''Stat'' i) w then Inl (ErrExternal ''stat'')
      else (case map_of (t_records (wt p w)) i of None \<Rightarrow> Inl ErrNotExist | Some _ \<Rightarrow> Inr ()))"

text \<open>\<^verbatim>\<open>os.Stat(repo/id/payload/v)\<close>; the files of the model are regular files.\<close>

definition os_Stat_payload :: "ext \<Rightarrow> repoid \<Rightarrow> string \<Rightarrow> string \<Rightarrow> world \<Rightarrow> error + unit" where
  "os_Stat_payload X p i v w =
     (if x_fails X (OpFS ''Stat'' (i @ ''/payload/'' @ v)) w then Inl (ErrExternal ''stat'')
      else (case map_of (t_records (wt p w)) i of
              None \<Rightarrow> Inl ErrNotExist
            | Some d \<Rightarrow>
               (case rd_payload d of
                  None \<Rightarrow> Inl ErrNotExist
                | Some fs \<Rightarrow> (case map_of fs v of None \<Rightarrow> Inl ErrNotExist | Some _ \<Rightarrow> Inr ()))))"

text \<open>\<^verbatim>\<open>ioutil.ReadDir(repo/id/payload)\<close>: the entries sorted by name.\<close>

definition ReadDir_payload ::
  "ext \<Rightarrow> repoid \<Rightarrow> string \<Rightarrow> world \<Rightarrow> error + (string \<times> bytes) list" where
  "ReadDir_payload X p i w =
     (if x_fails X (OpFS ''ReadDir'' (i @ ''/payload'')) w then Inl (ErrExternal ''readdir'')
      else (case map_of (t_records (wt p w)) i of
              None \<Rightarrow> Inl ErrNotExist
            | Some d \<Rightarrow>
               (case rd_payload d of
                  None \<Rightarrow> Inl ErrNotExist
                | Some fs \<Rightarrow> Inr (sort_key fst fs))))"

section \<open>Content verification\<close>

text \<open>\<^verbatim>\<open>backend.MetadataStream\<close>, \<open>backend.File\<close> (the payload in base64, the digest in
  hexadecimal), \<open>backend.Record\<close> and the cooked \<open>file\<close> of gitbe.go (here \<open>cfile\<close>).\<close>

record MetadataStream =
  MS_ID :: nat
  MS_Payload :: string

record File =
  File_Name :: string
  File_MIME :: string
  File_Digest :: string
  File_Payload :: string

record Record =
  R_RecordMetadata :: RecordMetadata
  R_Metadata :: "MetadataStream list"
  R_Files :: "File list"

record cfile =
  f_name :: string
  f_digest :: bytes
  f_payload :: bytes

text \<open>Modelled from the spec: \<^verbatim>\<open>util.ConvertDigest\<close> and \<open>util.IsDigest\<close> are defined outside
  gitbe.go. A digest is 32 bytes, written as 64 hexadecimal characters (spec 3 and 4.4:
  the token-hex pattern).\<close>

definition util_ConvertDigest :: "string \<Rightarrow> bytes option" where
  "util_ConvertDigest d =
     (case hex_DecodeString d of
        None \<Rightarrow> None
      | Some dd \<Rightarrow> if length dd \<noteq> sha256_Size then None else Some dd)"

definition util_IsDigest :: "string \<Rightarrow> bool" where
  "util_IsDigest s =
     (length s = 64 \<and> list_all (\<lambda>c. c \<in> set ''0123456789abcdef'') s)"

text \<open>The duplicate filename checks of \<^verbatim>\<open>verifyContent\<close> (gitbe.go 270-295), for the
  indices still to visit.\<close>

fun verifyContent_names :: "File list \<Rightarrow> string list \<Rightarrow> nat list \<Rightarrow> error option" where
  "verifyContent_names files filesDel [] = None"
| "verifyContent_names files filesDel (i # rest) =
     (if list_ex (\<lambda>j. i \<noteq> j \<and> File_Name (files ! i) = File_Name (files ! j)) [0..<length files]
      then Some (ContentVerificationError ErrorStatusDuplicateFilename [File_Name (files ! i)])
      else if list_ex (\<lambda>v. File_Name (files ! i) = v) filesDel
      then Some (ContentVerificationError ErrorStatusDuplicateFilename [File_Name (files ! i)])
      else verifyContent_names files filesDel rest)"

text \<open>The last loop of \<^verbatim>\<open>verifyContent\<close> (gitbe.go 297-370).\<close>

fun verifyContent_cook :: "ext \<Rightarrow> File list \<Rightarrow> cfile list \<Rightarrow> error + cfile list" where
  "verifyContent_cook X [] fa = Inr fa"
| "verifyContent_cook X (f # files) fa =
     (if x_sanitize X (File_Name f) \<noteq> File_Name f
      then Inl (ContentVerificationError ErrorStatusInvalidFilename [File_Name f])
      else (case util_ConvertDigest (File_Digest f) of
        None \<Rightarrow> Inl (ContentVerificationError ErrorStatusInvalidFileDigest [File_Name f])
      | Some d \<Rightarrow>
        (case x_base64 X (File_Payload f) of
          None \<Rightarrow> Inl (ContentVerificationError ErrorStatusInvalidBase64 [File_Name f])
        | Some payload \<Rightarrow>
            (let dp = x_sha256 X payload; detectedMIMEType = x_detect_mime X payload in
             if d \<noteq> dp
             then Inl (ContentVerificationError ErrorStatusInvalidFileDigest [File_Name f])
             else if detectedMIMEType \<noteq> File_MIME f
             then Inl (ContentVerificationError ErrorStatusInvalidMIMEType
                        [File_Name f, detectedMIMEType])
             else if \<not> x_mime_valid X (File_MIME f)
             then Inl (ContentVerificationError ErrorStatusUnsupportedMIMEType
                        [File_Name f, File_MIME f])
             else verifyContent_cook X files
                    (fa @ [\<lparr>f_name = File_Name f, f_digest = dp, f_payload = payload\<rparr>])))))"

text \<open>\<^verbatim>\<open>verifyContent\<close> (gitbe.go 213-373).\<close>

definition verifyContent ::
  "ext \<Rightarrow> MetadataStream list \<Rightarrow> File list \<Rightarrow> string list \<Rightarrow> error + cfile list" where
  "verifyContent X metadata files filesDel =
     (case filter (\<lambda>v. MS_ID v > x_MetadataStreamsMax X - 1) metadata of
        v # _ \<Rightarrow> Inl (ContentVerificationError ErrorStatusInvalidMDID [decimal (MS_ID v)])
      | [] \<Rightarrow>
     (case concat (map (\<lambda>i. map (\<lambda>j. i)
               (filter (\<lambda>j. \<not> (i = j \<or> MS_ID (metadata ! i) \<noteq> MS_ID (metadata ! j)))
                  [0..<length metadata])) [0..<length metadata]) of
        i # _ \<Rightarrow>
          Inl (ContentVerificationError ErrorStatusDuplicateMDID [decimal (MS_ID (metadata ! i))])
      | [] \<Rightarrow>
     (case filter (\<lambda>f. filepath_Base (File_Name f) \<noteq> File_Name f) files of
        f # _ \<Rightarrow> Inl (ContentVerificationError ErrorStatusInvalidFilename [File_Name f])
      | [] \<Rightarrow>
     (case filter (\<lambda>v. filepath_Base v \<noteq> v) filesDel of
        v # _ \<Rightarrow> Inl (ContentVerificationError ErrorStatusInvalidFilename [v])
      | [] \<Rightarrow>
     if length files = 0 then Inl (ContentVerificationError ErrorStatusEmpty [])
     else (case verifyContent_names files filesDel [0..<length files] of
        Some e \<Rightarrow> Inl e
      | None \<Rightarrow> verifyContent_cook X files [])))))"

section \<open>Record metadata\<close>

text \<open>\<^verbatim>\<open>merkle.Root\<close> of the dcrtime library: nil for no digests; else the digests are
  sorted (gitbe.go 692-694 relies on it) and the tree is computed over the sorted array.\<close>

definition merkle_Root :: "ext \<Rightarrow> bytes list \<Rightarrow> bytes option" where
  "merkle_Root X hashes = (if hashes = [] then None else Some (x_merkle_tree X (sort hashes)))"

text \<open>\<^verbatim>\<open>loadMD\<close> (gitbe.go 458-476); the file of the model always decodes.\<close>

definition loadMD :: "ext \<Rightarrow> repoid \<Rightarrow> string \<Rightarrow> world \<Rightarrow> error + RecordMetadata" where
  "loadMD X p i w =
     (if x_fails X (OpFS ''Open'' (i @ ''/'' @ defaultRecordMetadataFilename)) w
      then Inl (ErrExternal ''open'')
      else (case map_of (t_records (wt p w)) i of
              None \<Rightarrow> Inl ErrRecordNotFound
            | Some d \<Rightarrow> (case rd_md d of None \<Rightarrow> Inl ErrRecordNotFound | Some brm \<Rightarrow> Inr brm)))"

text \<open>\<^verbatim>\<open>updateMD\<close> (gitbe.go 503-513).\<close>

definition updateMD :: "ext \<Rightarrow> repoid \<Rightarrow> string \<Rightarrow> RecordMetadata \<Rightarrow> unit io" where
  "updateMD X p i brm w =
     (if x_fails X (OpFS ''Create'' (i @ ''/'' @ defaultRecordMetadataFilename)) w
      then (Inl (ErrExternal ''create''), w)
      else (case map_of (t_records (wt p w)) i of
              None \<Rightarrow> (Inl (ErrExternal ''create''), w)
            | Some d \<Rightarrow>
                (Inr (), set_wt p ((wt p w)\<lparr>t_records :=
                   AList.update i (d\<lparr>rd_md := Some brm\<rparr>) (t_records (wt p w))\<rparr>) w)))"

text \<open>\<^verbatim>\<open>createMD\<close> (gitbe.go 482-498); dereferencing the nil root of no hashes panics.\<close>

definition createMD ::
  "ext \<Rightarrow> repoid \<Rightarrow> string \<Rightarrow> MDStatusT \<Rightarrow> 64 word \<Rightarrow> bytes list \<Rightarrow> bytes \<Rightarrow> RecordMetadata io" where
  "createMD X p i status version hashes token w =
     (case merkle_Root X hashes of
        None \<Rightarrow> (Inl (Panic ''nil pointer dereference''), w)
      | Some root \<Rightarrow>
          (let brm = \<lparr>Version = version, Status = status, Merkle = go_copy (make_bytes sha256_Size) root,
                      Timestamp = x_now X, Token = token\<rparr>
           in bindE (updateMD X p i brm) (\<lambda>_ w'. (Inr brm, w')) w))"

text \<open>\<^verbatim>\<open>commitMD\<close> (gitbe.go 518-529).\<close>

definition commitMD :: "ext \<Rightarrow> repoid \<Rightarrow> string \<Rightarrow> string \<Rightarrow> unit io" where
  "commitMD X p i msg =
     bindE (gitAdd X p (i @ ''/'' @ defaultRecordMetadataFilename))
       (\<lambda>_. gitCommit X p (''Update record status '' @ i @ '' '' @ msg))"

section \<open>Creating a record\<close>

text \<open>The two loops of \<^verbatim>\<open>newRecord\<close> (gitbe.go 1028-1046 and 1049-1062).\<close>

fun newRecord_files :: "ext \<Rightarrow> string \<Rightarrow> cfile list \<Rightarrow> bytes list \<Rightarrow> bytes list io" where
  "newRecord_files X i [] hashes w = (Inr hashes, w)"
| "newRecord_files X i (f # fa) hashes w =
     bindE (WriteFile_payload X Unvetted i (f_name f) (f_payload f))
       (\<lambda>_. bindE (gitAdd X Unvetted (i @ ''/payload/'' @ f_name f))
          (\<lambda>_. newRecord_files X i fa
                  (hashes @ [go_copy (make_bytes sha256_Size) (f_digest f)]))) w"

fun newRecord_metadata :: "ext \<Rightarrow> string \<Rightarrow> MetadataStream list \<Rightarrow> unit io" where
  "newRecord_metadata X i [] w = (Inr (), w)"
| "newRecord_metadata X i (m # metadata) w =
     bindE (write_stream X Unvetted i (MS_ID m) (MS_Payload m) False)
       (\<lambda>_. bindE (gitAdd X Unvetted (mdstream_filename i (MS_ID m)))
          (\<lambda>_. newRecord_metadata X i metadata)) w"

text \<open>\<^verbatim>\<open>newRecord\<close> (gitbe.go 1012-1085).\<close>

definition newRecord :: "ext \<Rightarrow> bytes \<Rightarrow> MetadataStream list \<Rightarrow> cfile list \<Rightarrow> RecordMetadata io" where
  "newRecord X token metadata fa =
     (let i = hex_EncodeToString token in
      bindE (gitNewBranch X Unvetted i) (\<lambda>_.
      bindE (os_MkdirAll_payload X Unvetted i) (\<lambda>_.
      bindE (newRecord_files X i fa []) (\<lambda>hashes.
      bindE (newRecord_metadata X i metadata) (\<lambda>_.
      bindE (createMD X Unvetted i MDStatusUnvetted 1 hashes token) (\<lambda>brm.
      bindE (gitAdd X Unvetted (i @ ''/'' @ defaultRecordMetadataFilename)) (\<lambda>_.
      bindE (gitCommit X Unvetted (''Add record '' @ i)) (\<lambda>_ w. (Inr brm, w)))))))))"

text \<open>\<^verbatim>\<open>New\<close> (gitbe.go 1092-1153).\<close>

definition New :: "ext \<Rightarrow> MetadataStream list \<Rightarrow> File list \<Rightarrow> RecordMetadata io" where
  "New X metadata files w =
     (case verifyContent X metadata files [] of
        Inl e \<Rightarrow> (Inl e, w)
      | Inr fa \<Rightarrow>
          if x_fails X OpRandom w then (Inl (ErrExternal ''random''), w)
          else with_lock X (\<lambda>w.
            if w_shutdown w then (Inl ErrShutdown, w)
            else bindE (gitCheckout X Unvetted ''master'') (\<lambda>_.
                 bindE (gitPull X Unvetted True) (\<lambda>_ w.
                   (case newRecord X (x_random X) metadata fa w of
                      (Inl err, w1) \<Rightarrow>
                        (case gitStash X Unvetted w1 of
                           (Inl err2, w2) \<Rightarrow> (Inl err2, w2)
                         | (Inr _, w2) \<Rightarrow>
                             (case gitCheckout X Unvetted ''master'' w2 of
                                (Inl e, w3) \<Rightarrow> (Inl e, w3)
                              | (Inr _, w3) \<Rightarrow> (Inl err, w3)))
                    | (Inr brm, w1) \<Rightarrow>
                        (case gitCheckout X Unvetted ''master'' w1 of
                           (Inl e, w3) \<Rightarrow> (Inl e, w3)
                         | (Inr _, w3) \<Rightarrow> (Inr brm, w3))))) w) w)"

section \<open>Updating a record in the staging tier\<close>

text \<open>The two loops of \<^verbatim>\<open>updateMetadata\<close> (gitbe.go 1160-1173 and 1176-1195); the flag
  tells the append loop from the overwrite loop.\<close>

fun updateMetadata_loop :: "ext \<Rightarrow> string \<Rightarrow> bool \<Rightarrow> MetadataStream list \<Rightarrow> unit io" where
  "updateMetadata_loop X i app [] w = (Inr (), w)"
| "updateMetadata_loop X i app (m # md) w =
     bindE (write_stream X Unvetted i (MS_ID m) (MS_Payload m) app)
       (\<lambda>_. bindE (gitAdd X Unvetted (mdstream_filename i (MS_ID m)))
          (\<lambda>_. updateMetadata_loop X i app md)) w"

text \<open>\<^verbatim>\<open>updateMetadata\<close> (gitbe.go 1158-1197).\<close>

definition updateMetadata ::
  "ext \<Rightarrow> string \<Rightarrow> MetadataStream list \<Rightarrow> MetadataStream list \<Rightarrow> unit io" where
  "updateMetadata X i mdAppend mdOverwrite =
     bindE (updateMetadata_loop X i False mdOverwrite)
       (\<lambda>_. updateMetadata_loop X i True mdAppend)"

text \<open>\<^verbatim>\<open>checkoutRecordBranch\<close> (gitbe.go 1199-1242). After a failed \<open>os.Stat\<close> that is not
  \<open>IsNotExist\<close>, \<open>fi\<close> is nil and \<open>fi.IsDir()\<close> panics; the entries of the model are
  directories.\<close>

definition checkoutRecordBranch :: "ext \<Rightarrow> string \<Rightarrow> bool io" where
  "checkoutRecordBranch X i w =
     (case gitBranches X Unvetted w of
        Inl e \<Rightarrow> (Inl e, w)
      | Inr branches \<Rightarrow>
          (let found = list_ex (\<lambda>v. util_IsDigest v \<and> v = i) branches in
           if found
           then (case gitCheckout X Unvetted i w of
                   (Inl _, w') \<Rightarrow> (Inl ErrRecordNotFound, w')
                 | (Inr _, w') \<Rightarrow> (Inr found, w'))
           else (case os_Stat_dir X Unvetted i w of
                   Inl e \<Rightarrow>
                     if e = ErrNotExist then (Inl ErrRecordNotFound, w)
                     else (Inl (Panic ''nil pointer dereference''), w)
                 | Inr _ \<Rightarrow>
                     bindE (gitNewBranch X Unvetted i) (\<lambda>_ w'. (Inr found, w')) w)))"

text \<open>The loops of \<^verbatim>\<open>updateRecord\<close>: the check of the deletions (gitbe.go 1275-1289, with
  the nil \<open>fi\<close> after a failed \<open>os.Stat\<close> that is not \<open>IsNotExist\<close>), the file writes
  (1293-1306), the deletions (1309-1315) and the digests of the resulting files
  (1335-1344).\<close>

fun updateRecord_check :: "ext \<Rightarrow> string \<Rightarrow> string list \<Rightarrow> world \<Rightarrow> error option" where
  "updateRecord_check X i [] w = None"
| "updateRecord_check X i (v # filesDel) w =
     (case os_Stat_payload X Unvetted i v w of
        Inl e \<Rightarrow>
          if e = ErrNotExist then Some (ContentVerificationError ErrorStatusFileNotFound [v])
          else Some (Panic ''nil pointer dereference'')
      | Inr _ \<Rightarrow> updateRecord_check X i filesDel w)"

fun updateRecord_files :: "ext \<Rightarrow> string \<Rightarrow> cfile list \<Rightarrow> unit io" where
  "updateRecord_files X i [] w = (Inr (), w)"
| "updateRecord_files X i (f # fa) w =
     bindE (WriteFile_payload X Unvetted i (f_name f) (f_payload f))
       (\<lambda>_. bindE (gitAdd X Unvetted (i @ ''/payload/'' @ f_name f))
          (\<lambda>_. updateRecord_files X i fa)) w"

fun updateRecord_deletes :: "ext \<Rightarrow> string \<Rightarrow> string list \<Rightarrow> unit io" where
  "updateRecord_deletes X i [] w = (Inr (), w)"
| "updateRecord_deletes X i (v # filesDel) w =
     bindE (gitRm X Unvetted i v) (\<lambda>_. updateRecord_deletes X i filesDel) w"

fun updateRecord_hashes ::
  "ext \<Rightarrow> string \<Rightarrow> (string \<times> bytes) list \<Rightarrow> bytes list \<Rightarrow> world \<Rightarrow> error + bytes list" where
  "updateRecord_hashes X i [] hashes w = Inr hashes"
| "updateRecord_hashes X i (v # newRecordFiles) hashes w =
     (if x_fails X (OpFS ''DigestFileBytes'' (i @ ''/payload/'' @ fst v)) w
      then Inl (ErrExternal ''digest'')
      else updateRecord_hashes X i newRecordFiles
             (hashes @ [go_copy (make_bytes sha256_Size) (x_sha256 X (snd v))]) w)"

text \<open>\<^verbatim>\<open>updateRecord\<close> (gitbe.go 1249-1377).\<close>

definition updateRecord ::
  "ext \<Rightarrow> bytes \<Rightarrow> MetadataStream list \<Rightarrow> MetadataStream list \<Rightarrow> cfile list \<Rightarrow> string list
     \<Rightarrow> RecordMetadata io" where
  "updateRecord X token mdAppend mdOverwrite fa filesDel =
     (let i = hex_EncodeToString token in
      bindE (checkoutRecordBranch X i) (\<lambda>_ w.
        (case loadMD X Unvetted i w of
           Inl e \<Rightarrow> (Inl e, w)
         | Inr brm \<Rightarrow>
           if \<not> (Status brm = MDStatusVetted \<or> Status brm = MDStatusUnvetted
                \<or> Status brm = MDStatusIterationUnvetted \<or> Status brm = MDStatusLocked)
           then (Inl (Errorf ''can not update record that has status''), w)
           else (case updateRecord_check X i filesDel w of
             Some e \<Rightarrow> (Inl e, w)
           | None \<Rightarrow>
               bindE (updateRecord_files X i fa) (\<lambda>_.
               bindE (updateRecord_deletes X i filesDel) (\<lambda>_.
               bindE (updateMetadata X i mdAppend mdOverwrite) (\<lambda>_ w.
                 (case ReadDir_payload X Unvetted i w of
                    Inl e \<Rightarrow>
                      if e = ErrNotExist then (Inl (ContentVerificationError ErrorStatusEmpty []), w)
                      else (Inl e, w)
                  | Inr newRecordFiles \<Rightarrow>
                    (case updateRecord_hashes X i newRecordFiles [] w of
                       Inl e \<Rightarrow> (Inl e, w)
                     | Inr hashes \<Rightarrow>
                       (case gitDiff X Unvetted w of
                          Inl e \<Rightarrow> (Inl e, w)
                        | Inr o_lines \<Rightarrow>
                            if length o_lines = 0 then (Inl ErrNoChanges, w)
                            else
                              bindE (createMD X Unvetted i MDStatusIterationUnvetted
                                       (Version brm + 1) hashes token) (\<lambda>brmNew.
                              bindE (gitAdd X Unvetted (i @ ''/'' @ defaultRecordMetadataFilename)) (\<lambda>_.
                              bindE (gitCommit X Unvetted (''Update record '' @ i))
                                (\<lambda>_ w'. (Inr brmNew, w')))) w)))))) w))))"

text \<open>The start of \<^verbatim>\<open>UpdateUnvettedRecord\<close> and of \<open>UpdateVettedMetadata\<close> (gitbe.go
  1381-1392, 1487-1498): a content verification error is returned unless its code is
  \<open>ErrorStatusEmpty\<close>; then the cooked files are nil.\<close>

definition allow_empty :: "error + cfile list \<Rightarrow> error + cfile list" where
  "allow_empty r =
     (case r of
        Inl e \<Rightarrow> (case e of
                   ContentVerificationError c ctx \<Rightarrow> if c \<noteq> ErrorStatusEmpty then Inl e else Inr []
                 | _ \<Rightarrow> Inl e)
      | Inr fa \<Rightarrow> Inr fa)"

text \<open>\<^verbatim>\<open>UpdateUnvettedRecord\<close> (gitbe.go 1379-1448).\<close>

definition UpdateUnvettedRecord ::
  "ext \<Rightarrow> bytes \<Rightarrow> MetadataStream list \<Rightarrow> MetadataStream list \<Rightarrow> File list \<Rightarrow> string list
     \<Rightarrow> RecordMetadata io" where
  "UpdateUnvettedRecord X token mdAppend mdOverwrite filesAdd filesDel w =
     (case allow_empty (verifyContent X (mdAppend @ mdOverwrite) filesAdd filesDel) of
        Inl e \<Rightarrow> (Inl e, w)
      | Inr fa \<Rightarrow>
          with_lock X (\<lambda>w.
            if w_shutdown w then (Inl ErrShutdown, w)
            else bindE (gitCheckout X Unvetted ''master'') (\<lambda>_.
                 bindE (gitPull X Unvetted True) (\<lambda>_ w.
                   (case updateRecord X token mdAppend mdOverwrite fa filesDel w of
                      (Inl err, w1) \<Rightarrow>
                        if err = ErrNoChanges
                        then (case gitCheckout X Unvetted ''master'' w1 of
                                (Inl e, w3) \<Rightarrow> (Inl e, w3)
                              | (Inr _, w3) \<Rightarrow> (Inl err, w3))
                        else (case gitStash X Unvetted w1 of
                                (Inl err2, w2) \<Rightarrow> (Inl err2, w2)
                              | (Inr _, w2) \<Rightarrow>
                                  (case gitCheckout X Unvetted ''master'' w2 of
                                     (Inl e, w3) \<Rightarrow> (Inl e, w3)
                                   | (Inr _, w3) \<Rightarrow> (Inl err, w3)))
                    | (Inr brm, w1) \<Rightarrow>
                        (case gitCheckout X Unvetted ''master'' w1 of
                           (Inl e, w3) \<Rightarrow> (Inl e, w3)
                         | (Inr _, w3) \<Rightarrow> (Inr brm, w3))))) w) w)"

section \<open>Promotion and metadata of vetted records\<close>

text \<open>\<^verbatim>\<open>rebasePR\<close> (gitbe.go 2101-2183).\<close>

definition rebasePR :: "ext \<Rightarrow> string \<Rightarrow> unit io" where
  "rebasePR X i =
     bindE (gitCheckout X Unvetted ''master'') (\<lambda>_.
     bindE (gitPull X Unvetted True) (\<lambda>_.
     bindE (\<lambda>w. case gitCheckout X Unvetted i w of
                  (Inl _, w') \<Rightarrow> (Inl ErrRecordNotFound, w')
                | (Inr u, w') \<Rightarrow> (Inr u, w')) (\<lambda>_.
     bindE (gitRebase X Unvetted ''master'') (\<lambda>_.
     bindE (gitPush X Unvetted ''origin'' i True) (\<lambda>_.
     bindE (gitRebase X Vetted i) (\<lambda>_.
     bindE (gitBranchDelete X Vetted i) (\<lambda>_.
     bindE (gitCheckout X Unvetted ''master'') (\<lambda>_.
     bindE (gitPull X Unvetted True) (\<lambda>_.
     gitBranchDelete X Unvetted i)))))))))"

text \<open>\<^verbatim>\<open>updateVettedMetadata\<close> (gitbe.go 1453-1480).\<close>

definition updateVettedMetadata ::
  "ext \<Rightarrow> string \<Rightarrow> string \<Rightarrow> MetadataStream list \<Rightarrow> MetadataStream list \<Rightarrow> unit io" where
  "updateVettedMetadata X i idTmp mdAppend mdOverwrite =
     bindE (gitNewBranch X Unvetted idTmp) (\<lambda>_.
     bindE (updateMetadata X i mdAppend mdOverwrite) (\<lambda>_ w.
       if \<not> gitHasChanges X Unvetted w then (Inl ErrNoChanges, w)
       else bindE (gitCommit X Unvetted (''Update record metadata '' @ i))
              (\<lambda>_. rebasePR X idTmp) w))"

text \<open>\<^verbatim>\<open>UpdateVettedMetadata\<close> (gitbe.go 1485-1582). An \<open>os.Stat\<close> error that is not
  \<open>IsNotExist\<close> is ignored there.\<close>

definition UpdateVettedMetadata ::
  "ext \<Rightarrow> bytes \<Rightarrow> MetadataStream list \<Rightarrow> MetadataStream list \<Rightarrow> unit io" where
  "UpdateVettedMetadata X token mdAppend mdOverwrite w =
     (case allow_empty (verifyContent X (mdAppend @ mdOverwrite) [] []) of
        Inl e \<Rightarrow> (Inl e, w)
      | Inr _ \<Rightarrow>
          with_lock X (\<lambda>w.
            if w_shutdown w then (Inl ErrShutdown, w)
            else bindE (gitCheckout X Unvetted ''master'') (\<lambda>_.
                 bindE (gitPull X Unvetted True) (\<lambda>_ w.
                   (let i = hex_EncodeToString token; idTmp = i @ ''_tmp'' in
                    if os_Stat_dir X Unvetted i w = Inl ErrNotExist then (Inl ErrRecordNotFound, w)
                    else (case loadMD X Unvetted i w of
                      Inl e \<Rightarrow> (Inl e, w)
                    | Inr md \<Rightarrow>
                        if Status md = MDStatusLocked then (Inl ErrRecordLocked, w)
                        else (case updateVettedMetadata X i idTmp mdAppend mdOverwrite w of
                          (Inl err, w1) \<Rightarrow>
                            (case gitStash X Unvetted w1 of
                               (Inl err2, w2) \<Rightarrow> (Inl err2, w2)
                             | (Inr _, w2) \<Rightarrow>
                                 (case gitCheckout X Unvetted ''master'' w2 of
                                    (Inl e, w3) \<Rightarrow> (Inl e, w3)
                                  | (Inr _, w3) \<Rightarrow>
                                      (case gitBranchDelete X Unvetted idTmp w3 of
                                         (Inl err2, w4) \<Rightarrow> (Inl err2, w4)
                                       | (Inr _, w4) \<Rightarrow> (Inl err, w4))))
                        | (Inr _, w1) \<Rightarrow>
                            (case gitCheckout X Unvetted ''master'' w1 of
                               (Inl e, w3) \<Rightarrow> (Inl e, w3)
                             | (Inr _, w3) \<Rightarrow> (Inr (), w3))))))) w) w)"

section \<open>Status changes\<close>






section \<open>Delta commits\<close>

text \<open>The loop of \<^verbatim>\<open>deltaCommits\<close> (gitbe.go 573-600). \<open>ds[1]\<close> on a line without a space is
  an index out of range.\<close>

fun deltaCommits_loop ::
  "string list \<Rightarrow> bytes list \<Rightarrow> string list \<Rightarrow> error + (bytes list \<times> string list)" where
  "deltaCommits_loop [] digests commitMessages = Inr (digests, commitMessages)"
| "deltaCommits_loop (line # out) digests commitMessages =
     (let ds = strings_SplitN2 line in
      if length ds = 0 then Inl (Errorf ''invalid log'')
      else if length ds < 2 then Inl (Panic ''index out of range'')
      else if regexAnchorConfirmation_MatchString (ds ! 1)
        then deltaCommits_loop out digests commitMessages
      else (case hex_DecodeString (ds ! 0) of
              None \<Rightarrow> Inl (Errorf ''encoding/hex'')
            | Some sha1Digest \<Rightarrow>
                if length sha1Digest \<noteq> sha1_Size then Inl (Errorf ''invalid sha1 size'')
                else (case extendSHA1 sha1Digest of
                        Inl e \<Rightarrow> Inl e
                      | Inr sha256DigestB \<Rightarrow>
                          deltaCommits_loop out
                            (digests @ [go_copy (make_bytes sha256_Size) sha256DigestB])
                            (commitMessages @ [ds ! 1]))))"

text \<open>\<^verbatim>\<open>deltaCommits\<close> (gitbe.go 537-607).\<close>

definition deltaCommits ::
  "ext \<Rightarrow> repoid \<Rightarrow> bytes \<Rightarrow> world \<Rightarrow> error + (bytes list \<times> string list \<times> string list)" where
  "deltaCommits X p lastAnchor w =
     (if \<not> (length lastAnchor = 0 \<or> length lastAnchor = sha256_Size)
      then Inl (Errorf ''invalid digest size'')
      else (case gitLastDigest X p w of
        Inl e \<Rightarrow> Inl e
      | Inr latestCommit \<Rightarrow>
        (case (if length lastAnchor \<noteq> 0
               then (case unextendSHA256 lastAnchor of
                       Inl e \<Rightarrow> Inl e
                     | Inr sha1LastAnchor \<Rightarrow>
                         if sha1LastAnchor = latestCommit then Inl errNothingToDo
                         else Inr (Some (sha1LastAnchor, latestCommit)))
               else Inr None) of
          Inl e \<Rightarrow> Inl e
        | Inr rng \<Rightarrow>
          (case gitLog X p rng w of
            Inl e \<Rightarrow> Inl e
          | Inr out \<Rightarrow>
              if length out = 0 then Inl (Errorf ''invalid git output'')
              else (case deltaCommits_loop out [] [] of
                Inl e \<Rightarrow> Inl e
              | Inr (digests, commitMessages) \<Rightarrow>
                  if length digests = 0 then Inl errNothingToDo
                  else Inr (digests, commitMessages, out))))))"

section \<open>Anchoring\<close>

text \<open>\<^verbatim>\<open>anchor\<close> (gitbe.go 621-631): in test mode the last digest is recorded as not
  yet anchored (indexing an empty slice panics); else the digests go to the timestamp
  authority.\<close>

definition anchor :: "ext \<Rightarrow> bytes list \<Rightarrow> unit io" where
  "anchor X digests w =
     (if w_testmode w
      then (if digests = [] then (Inl (Panic ''index out of range''), w)
            else (Inr (), w\<lparr>w_testAnchors :=
                    AList.update (hex_EncodeToString (last digests)) False (w_testAnchors w)\<rparr>))
      else (if x_fails X (OpNet ''timestamp'') w then (Inl (ErrExternal ''timestamp''), w)
            else (Inr (), w\<lparr>w_timestamped := w_timestamped w @ [digests]\<rparr>)))"

definition defaultAuditTrailFile :: string where
  "defaultAuditTrailFile = ''anchor_audit_trail.txt''"

text \<open>\<^verbatim>\<open>appendAuditTrail\<close> (gitbe.go 634-648): the file is created when it is not there.\<close>

definition appendAuditTrail :: "ext \<Rightarrow> repoid \<Rightarrow> int \<Rightarrow> bytes \<Rightarrow> string list \<Rightarrow> unit io" where
  "appendAuditTrail X p ts merkle lines w =
     (if x_fails X (OpFS ''OpenFile'' defaultAuditTrailFile) w then (Inl (ErrExternal ''open''), w)
      else (Inr (), set_wt p ((wt p w)\<lparr>t_audit := Some
              ((case t_audit (wt p w) of None \<Rightarrow> [] | Some old \<Rightarrow> old)
               @ decimal_int ts @ '': --- Audit Trail Record '' @ hex_EncodeToString merkle
               @ '' ---'' @ newline
               @ concat (map (\<lambda>line. decimal_int ts @ '': ''
                    @ strings_Trim line ([CHR '' '', CHR 0x09, CHR 0x0A]) @ newline) lines))\<rparr>) w))"

text \<open>The anchor record of anchor.go.\<close>

record Anchor =
  A_Verified :: bool
  A_Digests :: "bytes list"
  A_Messages :: "string list"
  A_Time :: int

text \<open>Modelled from the spec: \<^verbatim>\<open>newAnchorRecord\<close> is defined outside gitbe.go. The spec
  (3, 4.5 step 4): an unverified anchor record with the time, the digests and the
  messages, whose key is the Merkle root of the 32-byte digests. The third result is the
  caller's digest slice after the call: \<open>merkle.Root\<close> sorts the slice it is given
  (gitbe.go 692-694).\<close>

definition newAnchorRecord ::
  "ext \<Rightarrow> bool \<Rightarrow> bytes list \<Rightarrow> string list \<Rightarrow> error + (Anchor \<times> bytes option \<times> bytes list)" where
  "newAnchorRecord X verified digests messages =
     (if length digests \<noteq> length messages then Inl (Errorf ''invalid digest and messages length'')
      else Inr (\<lparr>A_Verified = verified, A_Digests = digests, A_Messages = messages,
                  A_Time = x_now X\<rparr>,
                merkle_Root X digests, sort digests))"

text \<open>\<^verbatim>\<open>anchorRepo\<close> (gitbe.go 654-745). The last anchor record is read from the
  database. A nil anchor key would be dereferenced by \<open>anchor\<close>.\<close>

definition anchorRepo :: "ext \<Rightarrow> repoid \<Rightarrow> bytes io" where
  "anchorRepo X p w0 =
     (case gitCheckout X p ''master'' w0 of
        (Inl _, w) \<Rightarrow> (Inl (Errorf ''anchor checkout master''), w)
      | (Inr _, w) \<Rightarrow>
        (case gitFsck X p w of
           Inl _ \<Rightarrow> (Inl (Errorf ''anchor fsck master''), w)
         | Inr _ \<Rightarrow>
           if x_fails X (OpDB ''last'') w then (Inl (Errorf ''could not find last digest''), w)
           else (case deltaCommits X p (w_lastAnchor w) w of
             Inl err \<Rightarrow>
               if err = errNothingToDo then (Inl err, w)
               else (Inl (Errorf ''could not determine delta''), w)
           | Inr (digests, messages, _) \<Rightarrow>
               if length digests \<noteq> length messages
               then (Inl (Errorf ''invalid digests/messages count''), w)
               else
                 (let auditLines = map (\<lambda>k. hex_EncodeToString (digests ! k) @ '' ''
                                          @ messages ! k @ newline) [0..<length digests];
                      commitMessage = concat auditLines in
                  case newAnchorRecord X False digests messages of
                    Inl _ \<Rightarrow> (Inl (Errorf ''newAnchorRecord''), w)
                  | Inr (anchorRecord, anchorKeyPtr, digests') \<Rightarrow>
                    (case anchorKeyPtr of
                       None \<Rightarrow> (Inl (Panic ''nil pointer dereference''), w)
                     | Some anchorKey \<Rightarrow>
                       (case anchor X (digests' @ [anchorKey]) w of
                          (Inl _, w1) \<Rightarrow> (Inl (Errorf ''anchor''), w1)
                        | (Inr _, w1) \<Rightarrow>
                          (case appendAuditTrail X p (A_Time anchorRecord) anchorKey auditLines w1 of
                             (Inl _, w2) \<Rightarrow> (Inl (Errorf ''could not append to audit trail''), w2)
                           | (Inr _, w2) \<Rightarrow>
                             (case gitAdd X p defaultAuditTrailFile w2 of
                                (Inl _, w3) \<Rightarrow> (Inl (Errorf ''gitAdd''), w3)
                              | (Inr _, w3) \<Rightarrow>
                                (case gitCommit X p (markerAnchor @ '' ''
                                         @ hex_EncodeToString anchorKey @ newline @ newline
                                         @ commitMessage) w3 of
                                   (Inl _, w4) \<Rightarrow> (Inl (Errorf ''gitCommit''), w4)
                                 | (Inr _, w4) \<Rightarrow> (Inr anchorKey, w4))))))))))"

section \<open>Anchor confirmation\<close>





text \<open>The loop of \<^verbatim>\<open>afterAnchorVerify\<close> (gitbe.go 873-934).\<close>

fun afterAnchorVerify_loop :: "ext \<Rightarrow> VerifyDigest list \<Rightarrow> unit io" where
  "afterAnchorVerify_loop X [] w = (Inr (), w)"
| "afterAnchorVerify_loop X (vr # vrs) w =
     (if ChainTimestamp (vd_ChainInformation vr) = 0
      then (Inl (Errorf (''not enough confirmations: '' @ vd_Digest vr)), w)
      else (case util_ConvertDigest (vd_Digest vr) of
        None \<Rightarrow> (Inl (Errorf (''invalid digest: '' @ vd_Digest vr)), w)
      | Some mr \<Rightarrow>
          (let txLine = vd_Digest vr @ '' anchored in TX ''
                         @ Transaction (vd_ChainInformation vr) @ newline in
           bindE (appendAuditTrail X Vetted (ChainTimestamp (vd_ChainInformation vr)) mr [txLine]) (\<lambda>_.
           bindE (gitAdd X Vetted defaultAuditTrailFile) (\<lambda>_.
           bindE (\<lambda>w. if x_fails X (OpFS ''MkdirAll'' ''anchors'') w
                       then (Inl (ErrExternal ''mkdir''), w) else (Inr (), w)) (\<lambda>_.
           bindE (\<lambda>w. if x_fails X (OpFS ''WriteFile'' (''anchors/'' @ vd_Digest vr)) w
                       then (Inl (ErrExternal ''write''), w)
                       else (Inr (), set_wt Vetted ((wt Vetted w)\<lparr>t_anchors :=
                               AList.update (vd_Digest vr) (x_json X (vd_ChainInformation vr))
                                 (t_anchors (wt Vetted w))\<rparr>) w)) (\<lambda>_.
           bindE (gitAdd X Vetted (''anchors/'' @ vd_Digest vr)) (\<lambda>_.
           bindE (gitCommit X Vetted (markerAnchorConfirmation @ '' '' @ vd_Digest vr
                    @ newline @ newline @ txLine)) (\<lambda>_ w.
             afterAnchorVerify_loop X vrs
               (if w_testmode w
                then w\<lparr>w_testAnchors := AList.update (vd_Digest vr) True (w_testAnchors w)\<rparr>
                else w))))))) w)))"




section \<open>Example data\<close>

text \<open>An environment in which no external call fails, with toy library functions: the
  digest of a payload is the payload cut or zero-padded to 32 bytes, the Merkle tree of a
  sorted array is its first digest, base64 is the identity on character codes.\<close>

definition X0 :: ext where
  "X0 = \<lparr>x_fails = (\<lambda>_ _. False), x_now = 1000, x_random = replicate 32 5,
     x_sha256 = (\<lambda>b. take 32 (b @ replicate 32 0)),
     x_merkle_tree = (\<lambda>hs. case hs of [] \<Rightarrow> [] | h # _ \<Rightarrow> h),
     x_base64 = (\<lambda>s. Some (map of_char s)), x_detect_mime = (\<lambda>_. ''text/plain''),
     x_mime_valid = (\<lambda>m. m = ''text/plain''), x_sanitize = (\<lambda>s. s),
     x_commit_id = (\<lambda>m t h. replicate 20 (of_nat (length h))),
     x_rebase = (\<lambda>onto h. Some (take (length h - length onto) h @ onto)),
     x_verify = (\<lambda>_. Inr []), x_json = (\<lambda>_. ''{}''),
     x_base64_encode = map (\<lambda>b. char_of (unat b)), x_MetadataStreamsMax = 16\<rparr>"

definition commit_a :: commit where
  "commit_a = \<lparr>c_digest = replicate 20 1, c_message = ''Add record aa'', c_tree = empty_tree\<rparr>"

definition commit_c :: commit where
  "commit_c = \<lparr>c_digest = replicate 20 2,
     c_message = ''Anchor confirmation 0000000000000000000000000000000000000000000000000000000000000000'',
     c_tree = empty_tree\<rparr>"

definition repo_ac :: repo where
  "repo_ac = \<lparr>r_branches = [(''master'', [commit_c, commit_a])], r_head = ''master'',
     r_wt = empty_tree\<rparr>"

definition repo_c :: repo where
  "repo_c = \<lparr>r_branches = [(''master'', [commit_c])], r_head = ''master'', r_wt = empty_tree\<rparr>"

definition world_of :: "repo \<Rightarrow> repo \<Rightarrow> world" where
  "world_of u v = \<lparr>w_unvetted = u, w_vetted = v, w_lock = False, w_shutdown = False,
     w_testmode = False, w_testAnchors = [], w_lastAnchor = [], w_unconfirmed = [],
     w_timestamped = []\<rparr>"

text \<open>A staging tier with one unvetted record on its branch, cloned from a publication
  tier with one commit.\<close>

definition tok :: bytes where
  "tok = replicate 32 5"

definition tid :: string where
  "tid = hex_EncodeToString tok"

definition rec_md :: RecordMetadata where
  "rec_md = \<lparr>Version = 1, Status = MDStatusUnvetted, Merkle = take 32 ([1, 2, 3] @ replicate 32 0),
     Timestamp = 0, Token = tok\<rparr>"

definition rec_tree :: tree where
  "rec_tree = \<lparr>t_records = [(tid, \<lparr>rd_md = Some rec_md, rd_streams = [],
       rd_payload = Some [(''a.txt'', [1, 2, 3])]\<rparr>)], t_audit = None, t_anchors = []\<rparr>"

definition commit_rec :: commit where
  "commit_rec = \<lparr>c_digest = replicate 20 3, c_message = ''Add record '' @ tid, c_tree = rec_tree\<rparr>"

definition repo_u :: repo where
  "repo_u = \<lparr>r_branches = [(''master'', [commit_a]), (tid, [commit_rec, commit_a])],
     r_head = ''master'', r_wt = empty_tree\<rparr>"

definition repo_v :: repo where
  "repo_v = \<lparr>r_branches = [(''master'', [commit_a])], r_head = ''master'', r_wt = empty_tree\<rparr>"

text \<open>The example record with the status Locked, and a file to add.\<close>

definition lock_md :: RecordMetadata where
  "lock_md = rec_md\<lparr>Status := MDStatusLocked\<rparr>"

definition lock_tree :: tree where
  "lock_tree = \<lparr>t_records = [(tid, \<lparr>rd_md = Some lock_md, rd_streams = [],
       rd_payload = Some [(''a.txt'', [1, 2, 3])]\<rparr>)], t_audit = None, t_anchors = []\<rparr>"

definition commit_lock :: commit where
  "commit_lock = \<lparr>c_digest = replicate 20 4, c_message = ''Add record '' @ tid, c_tree = lock_tree\<rparr>"

definition repo_l :: repo where
  "repo_l = \<lparr>r_branches = [(''master'', [commit_a]), (tid, [commit_lock, commit_a])],
     r_head = ''master'', r_wt = empty_tree\<rparr>"

definition file_b :: File where
  "file_b = \<lparr>File_Name = ''b.txt'', File_MIME = ''text/plain'',
     File_Digest = hex_EncodeToString (120 # replicate 31 0), File_Payload = ''x''\<rparr>"




text \<open>A staging tier in sync with a publication tier that holds the example record as a
  vetted record, without a branch of the record; and a token of no record.\<close>

definition vet_md :: RecordMetadata where
  "vet_md = rec_md\<lparr>Status := MDStatusVetted\<rparr>"

definition vet_tree :: tree where
  "vet_tree = \<lparr>t_records = [(tid, \<lparr>rd_md = Some vet_md, rd_streams = [],
       rd_payload = Some [(''a.txt'', [1, 2, 3])]\<rparr>)], t_audit = None, t_anchors = []\<rparr>"

definition commit_vet :: commit where
  "commit_vet = \<lparr>c_digest = replicate 20 6, c_message = ''Update record status '' @ tid,
     c_tree = vet_tree\<rparr>"

definition repo_m :: repo where
  "repo_m = \<lparr>r_branches = [(''master'', [commit_vet, commit_a])], r_head = ''master'',
     r_wt = vet_tree\<rparr>"

definition tok2 :: bytes where
  "tok2 = replicate 32 9"


section \<open>Observations of the staging tier\<close>

text \<open>What the file operations of the staging tier leave alone: its branches with their
  histories, the branch checked out, the publication tier, the lock and the shutdown
  flag.\<close>

definition refs :: "world \<Rightarrow> (string \<times> commit list) list \<times> string \<times> repo \<times> bool \<times> bool" where
  "refs w = (r_branches (w_unvetted w), r_head (w_unvetted w), w_vetted w, w_lock w, w_shutdown w)"

text \<open>The directory of a record in the working tree of the staging tier, and in the last
  commit of a branch of the staging tier.\<close>

definition workdir :: "world \<Rightarrow> string \<Rightarrow> recdir option" where
  "workdir w i = map_of (t_records (wt Unvetted w)) i"

definition committed_record :: "world \<Rightarrow> string \<Rightarrow> string \<Rightarrow> recdir option" where
  "committed_record w b i = map_of (t_records (branch_tree (w_unvetted w) b)) i"

text \<open>The Merkle root of a record as the specification words it (3 and 8):
  \<^verbatim>\<open>MerkleRoot(sorted(sha256(payload_i)))\<close> over the payload files, each digest and the
  root an array of \<open>sha256.Size\<close> bytes.\<close>

definition spec_MerkleRoot :: "ext \<Rightarrow> (string \<times> bytes) list \<Rightarrow> bytes" where
  "spec_MerkleRoot X fs =
     go_copy (make_bytes sha256_Size)
       (x_merkle_tree X (sort (map (\<lambda>v. go_copy (make_bytes sha256_Size) (x_sha256 X (snd v))) fs)))"

section \<open>Properties of the extended digests\<close>

lemma list_ex_nonzero_iff:
  "list_ex (\<lambda>x. x \<noteq> (0::byte)) xs = (xs \<noteq> replicate (length xs) 0)"
  by (induction xs) auto

lemma extendSHA1_value:
  "length d = 20 \<Longrightarrow> extendSHA1 d = Inr (d @ replicate 12 0)"
  by (simp add: extendSHA1_def sha1_Size_def sha256_Size_def go_copy_def make_bytes_def)

lemma unextendSHA256_ok_iff:
  "(\<exists>r. unextendSHA256 x = Inr r) = (length x = 32 \<and> drop 20 x = replicate 12 0)"
  by (auto simp: unextendSHA256_def sha1_Size_def sha256_Size_def list_ex_nonzero_iff)

text \<open>C10: for a 20-byte digest, \<open>extendSHA1\<close> returns 32 bytes whose last 12 are zero and
  \<open>unextendSHA256\<close> gives the digest back; \<open>unextendSHA256\<close> returns a value exactly on the
  32-byte inputs whose last 12 bytes are zero, and panics on every other input.\<close>

theorem extend_unextend_roundtrip:
  "(length d = 20 \<longrightarrow>
      (\<exists>e. extendSHA1 d = Inr e \<and> length e = 32 \<and> take 20 e = d
         \<and> drop 20 e = replicate 12 0 \<and> unextendSHA256 e = Inr d))
   \<and> ((\<exists>r. unextendSHA256 x = Inr r) = (length x = 32 \<and> drop 20 x = replicate 12 0))
   \<and> (\<not> (length x = 32 \<and> drop 20 x = replicate 12 0) \<longrightarrow>
        (\<exists>m. unextendSHA256 x = Inl (Panic m)))"
proof (intro conjI impI)
  assume len: "length d = 20"
  have "unextendSHA256 (d @ replicate 12 0) = Inr d"
    using len
    by (simp add: unextendSHA256_def sha1_Size_def sha256_Size_def go_copy_def
        make_bytes_def list_ex_nonzero_iff)
  then show "\<exists>e. extendSHA1 d = Inr e \<and> length e = 32 \<and> take 20 e = d
         \<and> drop 20 e = replicate 12 0 \<and> unextendSHA256 e = Inr d"
    using len by (simp add: extendSHA1_value)
next
  show "(\<exists>r. unextendSHA256 x = Inr r) = (length x = 32 \<and> drop 20 x = replicate 12 0)"
    by (rule unextendSHA256_ok_iff)
next
  assume "\<not> (length x = 32 \<and> drop 20 x = replicate 12 0)"
  then show "\<exists>m. unextendSHA256 x = Inl (Panic m)"
    by (auto simp: unextendSHA256_def sha1_Size_def sha256_Size_def list_ex_nonzero_iff)
qed

theorem extend_unextend_roundtrip_witness:
  "extendSHA1 (replicate 20 7) = Inr (replicate 20 7 @ replicate 12 0)
   \<and> unextendSHA256 (replicate 20 7 @ replicate 12 0) = Inr (replicate 20 7)
   \<and> unextendSHA256 (replicate 32 7) = Inl (Panic ''invalid extended sha256'')
   \<and> unextendSHA256 [] = Inl (Panic ''invalid sha256 length'')"
  using extend_unextend_roundtrip [of "replicate 20 7" "replicate 32 7"]
  by (simp add: unextendSHA256_def sha1_Size_def sha256_Size_def list_ex_nonzero_iff extendSHA1_value)

section \<open>Properties of the delta commits\<close>

lemma hexdigit_table:
  "list_all (\<lambda>n. hexval (hexdigit n) = Some n \<and> hexdigit n \<noteq> CHR '' '') [0..<16]"
  by code_simp

lemma hexval_hexdigit: "n < 16 \<Longrightarrow> hexval (hexdigit n) = Some n"
  using hexdigit_table by (simp add: list_all_iff)

lemma hexdigit_not_space: "n < 16 \<Longrightarrow> CHR '' '' \<noteq> hexdigit n"
  using hexdigit_table by (auto simp: list_all_iff)

lemma byte_div_lt: "unat (b::byte) div 16 < 16"
  using unsigned_less [of b, where ?'a = nat] by (simp add: div_less_iff_less_mult)

lemma hex_decode_encode: "hex_DecodeString (hex_EncodeToString d) = Some d"
  by (induction d) (simp_all add: hex_EncodeToString_def hex_byte_def hexval_hexdigit byte_div_lt)

lemma hex_no_space: "x \<in> set (hex_EncodeToString d) \<Longrightarrow> x \<noteq> CHR '' ''"
proof -
  have "CHR '' '' \<notin> set (hex_EncodeToString d)"
    by (induction d)
      (simp_all add: hex_EncodeToString_def hex_byte_def hexdigit_not_space byte_div_lt)
  then show "x \<in> set (hex_EncodeToString d) \<Longrightarrow> x \<noteq> CHR '' ''" by auto
qed

text \<open>A line of the log splits into the commit digest in hexadecimal and the subject.\<close>

lemma split_oneline:
  "strings_SplitN2 (oneline c) = [hex_EncodeToString (c_digest c), subject (c_message c)]"
proof -
  have a: "takeWhile (\<lambda>c. c \<noteq> CHR '' '') (hex_EncodeToString d @ CHR '' '' # s)
            = hex_EncodeToString d" for d s
    by (simp add: takeWhile_append2 hex_no_space)
  have b: "dropWhile (\<lambda>c. c \<noteq> CHR '' '') (hex_EncodeToString d @ CHR '' '' # s)
            = CHR '' '' # s" for d s
    by (simp add: dropWhile_append2 hex_no_space)
  show ?thesis
    using a b by (simp add: strings_SplitN2_def oneline_def)
qed

lemma deltaCommits_loop_result:
  "deltaCommits_loop out ds ms = Inr (ds', ms') \<Longrightarrow>
     ms' = ms @ map (\<lambda>l. strings_SplitN2 l ! 1)
             (filter (\<lambda>l. \<not> regexAnchorConfirmation_MatchString (strings_SplitN2 l ! 1)) out)
   \<and> ds' = ds @ map (\<lambda>l. the (hex_DecodeString (strings_SplitN2 l ! 0)) @ replicate 12 0)
             (filter (\<lambda>l. \<not> regexAnchorConfirmation_MatchString (strings_SplitN2 l ! 1)) out)
   \<and> list_all (\<lambda>l. length (the (hex_DecodeString (strings_SplitN2 l ! 0))) = 20)
             (filter (\<lambda>l. \<not> regexAnchorConfirmation_MatchString (strings_SplitN2 l ! 1)) out)"
proof (induction out arbitrary: ds ms)
  case Nil
  then show ?case by simp
next
  case (Cons line out)
  show ?case
  proof (cases "regexAnchorConfirmation_MatchString (strings_SplitN2 line ! 1)")
    case True
    with Cons.prems have "deltaCommits_loop out ds ms = Inr (ds', ms')"
      by (simp add: Let_def split: if_splits)
    from Cons.IH [OF this] True show ?thesis by simp
  next
    case False
    with Cons.prems obtain d where
      d: "hex_DecodeString (strings_SplitN2 line ! 0) = Some d" "length d = 20"
      and rec: "deltaCommits_loop out (ds @ [d @ replicate 12 0]) (ms @ [strings_SplitN2 line ! 1])
                 = Inr (ds', ms')"
      by (auto simp: Let_def extendSHA1_def go_copy_def make_bytes_def sha1_Size_def sha256_Size_def
          split: if_splits option.splits)
    from Cons.IH [OF rec] False d show ?thesis by simp
  qed
qed

lemma deltaCommits_loop_all_skipped:
  "list_all (\<lambda>l. CHR '' '' \<in> set l \<and> regexAnchorConfirmation_MatchString (strings_SplitN2 l ! 1)) out
   \<Longrightarrow> deltaCommits_loop out ds ms = Inr (ds, ms)"
  by (induction out) (auto simp: Let_def strings_SplitN2_def)

lemma unextendSHA256_Inr_length: "unextendSHA256 la = Inr s \<Longrightarrow> length la = 32"
  by (simp add: unextendSHA256_def sha256_Size_def split: if_splits)

text \<open>C8: when \<open>deltaCommits\<close> returns, the log lines whose subject matches the
  anchor-confirmation marker are left out, the messages are the subjects of the other
  lines and the digests their 20-byte commit digests followed by 12 zero bytes, in the
  same order and number, and there is at least one; it returns \<open>errNothingToDo\<close> when the
  last anchor is the head commit, and when the log is not empty and every line of it is
  an anchor confirmation.\<close>

theorem deltaCommits_spec:
  "(deltaCommits X p la w = Inr (digests, msgs, out) \<longrightarrow>
      (\<exists>rng. gitLog X p rng w = Inr out)
      \<and> length digests = length msgs \<and> digests \<noteq> []
      \<and> msgs = map (\<lambda>l. strings_SplitN2 l ! 1)
           (filter (\<lambda>l. \<not> regexAnchorConfirmation_MatchString (strings_SplitN2 l ! 1)) out)
      \<and> digests = map (\<lambda>l. the (hex_DecodeString (strings_SplitN2 l ! 0)) @ replicate 12 0)
           (filter (\<lambda>l. \<not> regexAnchorConfirmation_MatchString (strings_SplitN2 l ! 1)) out)
      \<and> list_all (\<lambda>d. length d = 32 \<and> drop 20 d = replicate 12 0) digests)
   \<and> (gitLastDigest X p w = Inr latest \<and> la \<noteq> [] \<and> unextendSHA256 la = Inr latest \<longrightarrow>
        deltaCommits X p la w = Inl errNothingToDo)
   \<and> (gitLastDigest X p w = Inr latest
        \<and> (la = [] \<and> rng = None
            \<or> la \<noteq> [] \<and> unextendSHA256 la = Inr s \<and> s \<noteq> latest \<and> rng = Some (s, latest))
        \<and> gitLog X p rng w = Inr out \<and> out \<noteq> []
        \<and> list_all (\<lambda>l. CHR '' '' \<in> set l
               \<and> regexAnchorConfirmation_MatchString (strings_SplitN2 l ! 1)) out \<longrightarrow>
        deltaCommits X p la w = Inl errNothingToDo)"
proof (intro conjI impI)
  assume ok: "deltaCommits X p la w = Inr (digests, msgs, out)"
  then obtain rng where log: "gitLog X p rng w = Inr out"
    and loop: "deltaCommits_loop out [] [] = Inr (digests, msgs)"
    and ne: "digests \<noteq> []"
    by (auto simp: deltaCommits_def split: if_splits sum.splits)
  note r = deltaCommits_loop_result [OF loop]
  from log show "\<exists>rng. gitLog X p rng w = Inr out" ..
  from r show "length digests = length msgs" by simp
  from ne show "digests \<noteq> []" .
  from r show "msgs = map (\<lambda>l. strings_SplitN2 l ! 1)
           (filter (\<lambda>l. \<not> regexAnchorConfirmation_MatchString (strings_SplitN2 l ! 1)) out)"
    by simp
  from r show "digests = map (\<lambda>l. the (hex_DecodeString (strings_SplitN2 l ! 0)) @ replicate 12 0)
           (filter (\<lambda>l. \<not> regexAnchorConfirmation_MatchString (strings_SplitN2 l ! 1)) out)"
    by simp
  from r show "list_all (\<lambda>d. length d = 32 \<and> drop 20 d = replicate 12 0) digests"
    by (simp add: list_all_iff)
next
  assume "gitLastDigest X p w = Inr latest \<and> la \<noteq> [] \<and> unextendSHA256 la = Inr latest"
  then show "deltaCommits X p la w = Inl errNothingToDo"
    using unextendSHA256_Inr_length [of la latest]
    by (simp add: deltaCommits_def sha256_Size_def)
next
  assume a: "gitLastDigest X p w = Inr latest
        \<and> (la = [] \<and> rng = None
            \<or> la \<noteq> [] \<and> unextendSHA256 la = Inr s \<and> s \<noteq> latest \<and> rng = Some (s, latest))
        \<and> gitLog X p rng w = Inr out \<and> out \<noteq> []
        \<and> list_all (\<lambda>l. CHR '' '' \<in> set l
               \<and> regexAnchorConfirmation_MatchString (strings_SplitN2 l ! 1)) out"
  then have loop: "deltaCommits_loop out [] [] = Inr ([], [])"
    by (simp add: deltaCommits_loop_all_skipped)
  from a have "la = [] \<or> length la = 32"
    using unextendSHA256_Inr_length [of la s] by auto
  with a loop show "deltaCommits X p la w = Inl errNothingToDo"
    by (auto simp: deltaCommits_def sha256_Size_def)
qed

lemmas git_read_defs = gitLastDigest_def gitLog_def repo_of_def history_def world_of_def
  X0_def repo_ac_def repo_c_def

lemma oneline_commit_c: "strings_SplitN2 (oneline commit_c) ! 1 = c_message commit_c"
  by (simp add: split_oneline subject_def commit_c_def)

lemma match_commit_c: "regexAnchorConfirmation_MatchString (c_message commit_c)"
  by (simp add: commit_c_def regexAnchorConfirmation_MatchString_def markerAnchorConfirmation_def
      hexval_def Let_def)

lemma nomatch_commit_a: "\<not> regexAnchorConfirmation_MatchString (subject (c_message commit_a))"
  by (simp add: commit_a_def regexAnchorConfirmation_MatchString_def markerAnchorConfirmation_def
      subject_def Let_def)

lemma subject_commit_c: "subject (c_message commit_c) = c_message commit_c"
  by (simp add: subject_def commit_c_def)

lemma commit_a_simps:
  "subject (c_message commit_a) = ''Add record aa''" "c_digest commit_a = replicate 20 1"
  "c_digest commit_c = replicate 20 2"
  by (simp_all add: subject_def commit_a_def commit_c_def)

lemma space_oneline: "CHR '' '' \<in> set (oneline c)"
  by (simp add: oneline_def)

text \<open>The theorem at a history of an anchor confirmation on top of a record commit, and
  at a history that is one anchor confirmation.\<close>

theorem deltaCommits_spec_witness:
  "deltaCommits X0 Vetted [] (world_of repo_ac repo_ac)
     = Inr ([replicate 20 1 @ replicate 12 0], [''Add record aa''], [oneline commit_c, oneline commit_a])
   \<and> list_all (\<lambda>d. length d = 32 \<and> drop 20 d = replicate 12 0) [replicate 20 1 @ replicate 12 (0::byte)]
   \<and> deltaCommits X0 Vetted (replicate 20 2 @ replicate 12 0) (world_of repo_ac repo_ac)
     = Inl errNothingToDo
   \<and> deltaCommits X0 Vetted [] (world_of repo_c repo_c) = Inl errNothingToDo"
proof -
  let ?W = "world_of repo_ac repo_ac"
  let ?D = "[replicate 20 1 @ replicate 12 (0::byte)]"
  let ?O = "[oneline commit_c, oneline commit_a]"
  have e1: "deltaCommits X0 Vetted [] ?W = Inr (?D, [''Add record aa''], ?O)"
    using nomatch_commit_a
    by (simp add: deltaCommits_def git_read_defs split_oneline subject_commit_c commit_a_simps
        match_commit_c hex_decode_encode extendSHA1_def
        sha1_Size_def sha256_Size_def go_copy_def make_bytes_def Let_def)
  have e2: "gitLastDigest X0 Vetted ?W = Inr (replicate 20 2)"
    by (simp add: git_read_defs commit_a_simps)
  have e3: "unextendSHA256 (replicate 20 2 @ replicate 12 0) = Inr (replicate 20 2)"
    by (simp add: unextendSHA256_def sha1_Size_def sha256_Size_def go_copy_def make_bytes_def
        list_ex_nonzero_iff)
  have e4: "gitLastDigest X0 Vetted (world_of repo_c repo_c) = Inr (replicate 20 2)"
    by (simp add: git_read_defs commit_a_simps)
  have e5: "gitLog X0 Vetted None (world_of repo_c repo_c) = Inr [oneline commit_c]"
    by (simp add: git_read_defs)
  have e6: "list_all (\<lambda>l. CHR '' '' \<in> set l
               \<and> regexAnchorConfirmation_MatchString (strings_SplitN2 l ! 1)) [oneline commit_c]"
    by (simp add: space_oneline split_oneline subject_commit_c match_commit_c)
  from deltaCommits_spec [of X0 Vetted "[]" ?W ?D "[''Add record aa'']" ?O "[]" None "[]"] e1
  have c1: "list_all (\<lambda>d. length d = 32 \<and> drop 20 d = replicate 12 0) ?D"
    by blast
  from deltaCommits_spec [of X0 Vetted "replicate 20 2 @ replicate 12 0" ?W "[]" "[]" "[]"
      "replicate 20 2" None "[]"] e2 e3
  have c2: "deltaCommits X0 Vetted (replicate 20 2 @ replicate 12 0) ?W = Inl errNothingToDo"
    by simp
  from deltaCommits_spec [of X0 Vetted "[]" "world_of repo_c repo_c" "[]" "[]" "[oneline commit_c]"
      "replicate 20 2" None "[]"] e4 e5 e6
  have c3: "deltaCommits X0 Vetted [] (world_of repo_c repo_c) = Inl errNothingToDo"
    by simp
  from e1 c1 c2 c3 show ?thesis by blast
qed

section \<open>Properties of the status changes\<close>

lemma bindE_Inr:
  "(bindE m f w = (Inr r, w')) = (\<exists>a w''. m w = (Inr a, w'') \<and> f a w'' = (Inr r, w'))"
  by (auto simp: bindE_def split: prod.splits sum.splits)

lemma bindE_ok: "m w = (Inr a, w1) \<Longrightarrow> bindE m f w = f a w1"
  by (simp add: bindE_def)

lemma bindE_err: "m w = (Inl e, w1) \<Longrightarrow> bindE m f w = (Inl e, w1)"
  by (simp add: bindE_def)







lemma hex_length: "length (hex_EncodeToString bs) = 2 * length bs"
  by (induction bs) (simp_all add: hex_EncodeToString_def hex_byte_def)

lemma tid_length: "length tid = 64"
  by (simp add: tid_def tok_def hex_length)

lemma tid_neq_master [simp]: "tid \<noteq> ''master''" "''master'' \<noteq> tid"
proof -
  show "tid \<noteq> ''master''"
  proof
    assume "tid = ''master''"
    then have "length tid = length ''master''" by (rule arg_cong)
    then show False by (simp add: tid_length)
  qed
  then show "''master'' \<noteq> tid" by (rule not_sym)
qed

lemma c_tree_commit_a [simp]: "c_tree commit_a = empty_tree"
  by (simp add: commit_a_def)

lemma c_tree_commit_rec [simp]: "c_tree commit_rec = rec_tree"
  by (simp add: commit_rec_def)

lemmas ex_defs = world_of_def repo_u_def repo_v_def X0_def
lemmas st_defs = repo_of_def set_repo_def wt_def set_wt_def history_def head_tree_def
  branch_tree_def dirty_def

lemma ex_lock: "lock_Lock X0 (world_of repo_u repo_v) = (Inr (), (world_of repo_u repo_v)\<lparr>w_lock := True\<rparr>)"
  by (simp add: lock_Lock_def ex_defs)

lemma ex_checkout:
  "gitCheckout X0 Unvetted tid ((world_of repo_u repo_v)\<lparr>w_lock := True\<rparr>)
    = (Inr (), (world_of (repo_u\<lparr>r_head := tid, r_wt := rec_tree\<rparr>) repo_v)\<lparr>w_lock := True\<rparr>)"
  by (simp add: gitCheckout_def ex_defs st_defs)



lemma ex_checkout_master:
  "gitCheckout X0 Unvetted ''master'' ((world_of (repo_u\<lparr>r_head := tid, r_wt := rec_tree\<rparr>) repo_v)\<lparr>w_lock := True\<rparr>)
   = (Inr (), (world_of repo_u repo_v)\<lparr>w_lock := True\<rparr>)"
  by (simp add: gitCheckout_def ex_defs st_defs)

lemmas op_defs = gitCheckout_def gitStash_def gitAdd_def gitCommit_def updateMD_def
  commitMD_def updateMetadata_def bindE_def lock_Lock_def with_lock_def


section \<open>Locked records\<close>

lemma c_tree_commit_lock [simp]: "c_tree commit_lock = lock_tree"
  by (simp add: commit_lock_def)

lemma ConvertDigest_hex: "length d = 32 \<Longrightarrow> util_ConvertDigest (hex_EncodeToString d) = Some d"
  by (simp add: util_ConvertDigest_def hex_decode_encode sha256_Size_def)

lemma verify_file_b:
  "verifyContent X0 [] [file_b] []
    = Inr [\<lparr>f_name = ''b.txt'', f_digest = 120 # replicate 31 0, f_payload = [120]\<rparr>]"
  by (simp add: verifyContent_def file_b_def X0_def filepath_Base_def ConvertDigest_hex Let_def)

lemma tid_IsDigest: "util_IsDigest tid"
  by (simp add: util_IsDigest_def tid_length)
    (simp add: tid_def tok_def hex_EncodeToString_def hex_byte_def hexdigit_def list_all_iff)

lemma ex_updateRecord_locked:
  "\<exists>w'. updateRecord X0 tok [] []
      [\<lparr>f_name = ''b.txt'', f_digest = 120 # replicate 31 0, f_payload = [120]\<rparr>] []
      ((world_of repo_l repo_v)\<lparr>w_lock := True\<rparr>)
    = (Inr \<lparr>Version = 2, Status = MDStatusIterationUnvetted,
            Merkle = [1, 2, 3] @ replicate 29 0, Timestamp = 1000, Token = tok\<rparr>, w')
     \<and> r_head (w_unvetted w') = tid \<and> \<not> dirty (w_unvetted w')
     \<and> map_of (r_branches (w_unvetted w')) ''master'' \<noteq> None"
  unfolding updateRecord_def tid_def [symmetric] Let_def
  by (simp add: checkoutRecordBranch_def gitBranches_def tid_IsDigest op_defs gitNewBranch_def
      loadMD_def updateMetadata_def WriteFile_payload_def ReadDir_payload_def gitDiff_def
      createMD_def merkle_Root_def go_copy_def make_bytes_def sha256_Size_def
      world_of_def repo_l_def repo_v_def X0_def st_defs lock_tree_def lock_md_def rec_md_def
      Let_def)

text \<open>\<open>UpdateVettedMetadata\<close> refuses a Locked record with \<open>ErrRecordLocked\<close>, in the
  state the checkout of master and the pull left.\<close>

lemma UpdateVettedMetadata_locked:
  assumes "allow_empty (verifyContent X (mdAppend @ mdOverwrite) [] []) = Inr fa"
    and "lock_Lock X w0 = (Inr (), w1)" and "\<not> w_shutdown w1"
    and "gitCheckout X Unvetted ''master'' w1 = (Inr (), w2)"
    and "gitPull X Unvetted True w2 = (Inr (), w3)"
    and md: "loadMD X Unvetted (hex_EncodeToString token) w3 = Inr md"
    and "Status md = MDStatusLocked"
  shows "UpdateVettedMetadata X token mdAppend mdOverwrite w0
           = (Inl ErrRecordLocked, w3\<lparr>w_lock := False\<rparr>)"
proof -
  from md have "os_Stat_dir X Unvetted (hex_EncodeToString token) w3 \<noteq> Inl ErrNotExist"
    by (auto simp: loadMD_def os_Stat_dir_def split: if_splits option.splits)
  with assms show ?thesis
    unfolding UpdateVettedMetadata_def with_lock_def
    by (simp add: bindE_def Let_def)
qed

lemma ex_pull_l:
  "gitPull X0 Unvetted True ((world_of repo_l repo_v)\<lparr>w_lock := True\<rparr>)
     = (Inr (), (world_of repo_l repo_v)\<lparr>w_lock := True\<rparr>)"
  by (simp add: gitPull_def world_of_def repo_l_def repo_v_def X0_def st_defs Let_def)

lemma ex_checkout_master_l:
  "gitCheckout X0 Unvetted ''master'' ((world_of repo_l repo_v)\<lparr>w_lock := True\<rparr>)
     = (Inr (), (world_of repo_l repo_v)\<lparr>w_lock := True\<rparr>)"
  by (simp add: gitCheckout_def world_of_def repo_l_def repo_v_def X0_def st_defs Let_def)

lemma gitCheckout_clean:
  "r_head (w_unvetted w) = b' \<Longrightarrow> \<not> dirty (w_unvetted w) \<Longrightarrow>
   map_of (r_branches (w_unvetted w)) b \<noteq> None \<Longrightarrow> \<not> x_fails X (OpGit Unvetted [''checkout'', b]) w \<Longrightarrow>
   \<exists>w'. gitCheckout X Unvetted b w = (Inr (), w') \<and> r_branches (w_unvetted w') = r_branches (w_unvetted w)"
  by (auto simp: gitCheckout_def Let_def repo_of_def set_repo_def)


section \<open>Properties of the anchor confirmation\<close>


lemma bindE_keeps:
  assumes "\<And>w. F (snd (m w)) = F w" and "\<And>a w. F (snd (f a w)) = F w"
  shows "F (snd (bindE m f w)) = F w"
proof (cases "m w")
  case (Pair r w1)
  with assms(1) [of w] have 1: "F w1 = F w" by simp
  show ?thesis
  proof (cases r)
    case (Inl e)
    with Pair 1 show ?thesis by (simp add: bindE_def)
  next
    case (Inr a)
    with Pair 1 assms(2) [of a w1] show ?thesis by (simp add: bindE_def)
  qed
qed

lemma set_repo_unconfirmed [simp]: "w_unconfirmed (set_repo p r w) = w_unconfirmed w"
  by (cases p) (simp_all add: set_repo_def)

lemma set_wt_unconfirmed [simp]: "w_unconfirmed (set_wt p t w) = w_unconfirmed w"
  by (simp add: set_wt_def)

lemma gitCheckout_unconfirmed [simp]:
  "w_unconfirmed (snd (gitCheckout X p b w)) = w_unconfirmed w"
  by (simp add: gitCheckout_def Let_def)

lemma gitAdd_unconfirmed [simp]: "w_unconfirmed (snd (gitAdd X p f w)) = w_unconfirmed w"
  by (simp add: gitAdd_def)

lemma gitCommit_unconfirmed [simp]: "w_unconfirmed (snd (gitCommit X p m w)) = w_unconfirmed w"
  by (simp add: gitCommit_def Let_def)

lemma gitPull_unconfirmed [simp]: "w_unconfirmed (snd (gitPull X p f w)) = w_unconfirmed w"
  by (simp add: gitPull_def Let_def)

lemma appendAuditTrail_unconfirmed [simp]:
  "w_unconfirmed (snd (appendAuditTrail X p ts m ls w)) = w_unconfirmed w"
  by (simp add: appendAuditTrail_def)

lemma afterAnchorVerify_loop_unconfirmed [simp]:
  "w_unconfirmed (snd (afterAnchorVerify_loop X vrs w)) = w_unconfirmed w"
proof (induction vrs arbitrary: w)
  case Nil
  show ?case by simp
next
  case (Cons vr vrs)
  show ?case
    by (simp add: Let_def Cons.IH split: option.splits) (intro impI allI bindE_keeps; simp add: Cons.IH)
qed


lemma bindE_Inl: "bindE (\<lambda>w. (Inl e, w)) f = (\<lambda>w. (Inl e, w))"
  by (rule ext) (simp add: bindE_def)



lemma ex_lock_v:
  "lock_Lock X0 (world_of repo_v repo_v) = (Inr (), (world_of repo_v repo_v)\<lparr>w_lock := True\<rparr>)"
  by (simp add: lock_Lock_def ex_defs)




section \<open>Properties of anchoring\<close>

lemma anchorRepo_Inr:
  assumes "anchorRepo X p w0 = (Inr key, w')"
  obtains w digests messages out w1 w2 where
    "gitCheckout X p ''master'' w0 = (Inr (), w)"
    "deltaCommits X p (w_lastAnchor w) w = Inr (digests, messages, out)"
    "merkle_Root X digests = Some key"
    "anchor X (sort digests @ [key]) w = (Inr (), w1)"
    "appendAuditTrail X p (x_now X) key
              (map (\<lambda>k. hex_EncodeToString (digests ! k) @ '' '' @ messages ! k @ newline)
                 [0..<length digests]) w1 = (Inr (), w2)"
    "gitCommit X p (markerAnchor @ '' '' @ hex_EncodeToString key @ newline @ newline
              @ concat (map (\<lambda>k. hex_EncodeToString (digests ! k) @ '' '' @ messages ! k @ newline)
                 [0..<length digests])) w2 = (Inr (), w')"
  using assms unfolding anchorRepo_def Let_def
  by (auto simp: newAnchorRecord_def gitAdd_def
      split: prod.splits sum.splits if_splits option.splits unit.splits)

lemma gitCheckout_Inr:
  "gitCheckout X p b w = (Inr u, w') \<Longrightarrow>
     w' = set_repo p ((repo_of p w)\<lparr>r_head := b, r_wt := branch_tree (repo_of p w) b\<rparr>) w
     \<and> map_of (r_branches (repo_of p w)) b \<noteq> None \<and> \<not> dirty (repo_of p w)"
  by (auto simp: gitCheckout_def Let_def split: if_splits)

lemma gitCommit_Inr:
  "gitCommit X p msg w = (Inr u, w') \<Longrightarrow>
     w' = set_repo p ((repo_of p w)\<lparr>r_branches := AList.update (r_head (repo_of p w))
            (\<lparr>c_digest = x_commit_id X msg (r_wt (repo_of p w))
                 (history (repo_of p w) (r_head (repo_of p w))),
               c_message = msg, c_tree = r_wt (repo_of p w)\<rparr>
             # history (repo_of p w) (r_head (repo_of p w)))
            (r_branches (repo_of p w))\<rparr>) w"
  by (auto simp: gitCommit_def Let_def split: if_splits)

lemma repo_of_set_repo [simp]: "repo_of p (set_repo p r w) = r"
  by (cases p) (simp_all add: repo_of_def set_repo_def)

lemma repo_of_set_wt [simp]: "repo_of p (set_wt p t w) = (repo_of p w)\<lparr>r_wt := t\<rparr>"
  by (simp add: set_wt_def)

lemma anchor_Inr:
  "anchor X ds w = (Inr u, w') \<Longrightarrow>
     repo_of p w' = repo_of p w
     \<and> (if w_testmode w
         then w_testAnchors w' = AList.update (hex_EncodeToString (last ds)) False (w_testAnchors w)
              \<and> w_timestamped w' = w_timestamped w
         else w_testAnchors w' = w_testAnchors w \<and> w_timestamped w' = w_timestamped w @ [ds])"
  by (cases p) (auto simp: anchor_def repo_of_def split: if_splits)

lemma appendAuditTrail_Inr:
  "appendAuditTrail X p ts m ls w = (Inr u, w') \<Longrightarrow>
     r_branches (repo_of p w') = r_branches (repo_of p w) \<and> r_head (repo_of p w') = r_head (repo_of p w)
     \<and> w_timestamped w' = w_timestamped w \<and> w_testAnchors w' = w_testAnchors w"
  by (cases p) (auto simp: appendAuditTrail_def set_wt_def set_repo_def repo_of_def split: if_splits)

lemma history_update [simp]:
  "history (r\<lparr>r_branches := AList.update b h (r_branches r)\<rparr>) b = h"
  by (simp add: history_def update_conv')

lemma history_set_wt [simp]: "history (r\<lparr>r_wt := t\<rparr>) b = history r b"
  by (simp add: history_def)

lemma history_set_head [simp]: "history (r\<lparr>r_head := t\<rparr>) b = history r b"
  by (simp add: history_def)

lemma set_repo_fields [simp]:
  "w_timestamped (set_repo p r w) = w_timestamped w"
  "w_testAnchors (set_repo p r w) = w_testAnchors w"
  "w_testmode (set_repo p r w) = w_testmode w"
  "w_lastAnchor (set_repo p r w) = w_lastAnchor w"
  by (cases p; simp add: set_repo_def)+

lemma gitCommit_fields:
  "gitCommit X p m w = (r, w') \<Longrightarrow>
     w_timestamped w' = w_timestamped w \<and> w_testAnchors w' = w_testAnchors w"
  by (auto simp: gitCommit_def Let_def split: if_splits)

lemma deltaCommits_Inr:
  assumes "deltaCommits X p la w = Inr (digests, msgs, out)"
  shows "digests \<noteq> []" and "length digests = length msgs"
proof -
  from assms have loop: "deltaCommits_loop out [] [] = Inr (digests, msgs)"
    and ne: "digests \<noteq> []"
    by (auto simp: deltaCommits_def split: if_splits sum.splits)
  from ne show "digests \<noteq> []" .
  from deltaCommits_loop_result [OF loop] show "length digests = length msgs" by simp
qed

text \<open>C4: when \<open>anchorRepo\<close> returns a key, the delta commits were not empty, the key is
  the Merkle root of their extended digests, the digest batch sent to the timestamp
  authority is these digests (sorted by the Merkle computation) followed by the key (in
  test mode the key is recorded as a pending test anchor instead), and master has exactly
  one new commit, whose message is the marker \<open>Anchor\<close>, a space, the key in hexadecimal,
  an empty line, and one line a commit in the order of the log.\<close>

theorem anchorRepo_spec:
  assumes ok: "anchorRepo X p w0 = (Inr key, w')"
  shows "\<exists>w digests messages out c.
           gitCheckout X p ''master'' w0 = (Inr (), w)
         \<and> deltaCommits X p (w_lastAnchor w0) w = Inr (digests, messages, out)
         \<and> digests \<noteq> [] \<and> length messages = length digests
         \<and> merkle_Root X digests = Some key
         \<and> (if w_testmode w0
             then w_timestamped w' = w_timestamped w0
                  \<and> w_testAnchors w' = AList.update (hex_EncodeToString key) False (w_testAnchors w0)
             else w_timestamped w' = w_timestamped w0 @ [sort digests @ [key]]
                  \<and> w_testAnchors w' = w_testAnchors w0)
         \<and> mset (sort digests) = mset digests
         \<and> history (repo_of p w') ''master'' = c # history (repo_of p w0) ''master''
         \<and> c_message c = markerAnchor @ '' '' @ hex_EncodeToString key @ newline @ newline
              @ concat (map (\<lambda>k. hex_EncodeToString (digests ! k) @ '' '' @ messages ! k @ newline)
                 [0..<length digests])"
proof -
  from ok obtain w digests messages out w1 w2 where
    co: "gitCheckout X p ''master'' w0 = (Inr (), w)"
    and dc: "deltaCommits X p (w_lastAnchor w) w = Inr (digests, messages, out)"
    and mr: "merkle_Root X digests = Some key"
    and an: "anchor X (sort digests @ [key]) w = (Inr (), w1)"
    and au: "appendAuditTrail X p (x_now X) key
              (map (\<lambda>k. hex_EncodeToString (digests ! k) @ '' '' @ messages ! k @ newline)
                 [0..<length digests]) w1 = (Inr (), w2)"
    and cm: "gitCommit X p (markerAnchor @ '' '' @ hex_EncodeToString key @ newline @ newline
              @ concat (map (\<lambda>k. hex_EncodeToString (digests ! k) @ '' '' @ messages ! k @ newline)
                 [0..<length digests])) w2 = (Inr (), w')"
    by (rule anchorRepo_Inr)
  note c = gitCheckout_Inr [OF co]
  have w_fields: "w_lastAnchor w = w_lastAnchor w0" "w_testmode w = w_testmode w0"
    "w_timestamped w = w_timestamped w0" "w_testAnchors w = w_testAnchors w0"
    "r_head (repo_of p w) = ''master''"
    "history (repo_of p w) ''master'' = history (repo_of p w0) ''master''"
    using c by simp_all
  note dl = deltaCommits_Inr [OF dc]
  note a = anchor_Inr [OF an, of p]
  note b = appendAuditTrail_Inr [OF au]
  note d = gitCommit_Inr [OF cm]
  let ?c = "\<lparr>c_digest = x_commit_id X (markerAnchor @ '' '' @ hex_EncodeToString key @ newline @ newline
              @ concat (map (\<lambda>k. hex_EncodeToString (digests ! k) @ '' '' @ messages ! k @ newline)
                 [0..<length digests])) (r_wt (repo_of p w2))
                 (history (repo_of p w2) (r_head (repo_of p w2))),
               c_message = markerAnchor @ '' '' @ hex_EncodeToString key @ newline @ newline
              @ concat (map (\<lambda>k. hex_EncodeToString (digests ! k) @ '' '' @ messages ! k @ newline)
                 [0..<length digests]), c_tree = r_wt (repo_of p w2)\<rparr>"
  have h2: "r_head (repo_of p w2) = ''master''"
    "history (repo_of p w2) ''master'' = history (repo_of p w0) ''master''"
    using a b w_fields by (simp_all add: history_def)
  have hist: "history (repo_of p w') ''master'' = ?c # history (repo_of p w0) ''master''"
    by (subst d) (simp add: h2)
  have ts: "if w_testmode w0
             then w_timestamped w' = w_timestamped w0
                  \<and> w_testAnchors w' = AList.update (hex_EncodeToString key) False (w_testAnchors w0)
             else w_timestamped w' = w_timestamped w0 @ [sort digests @ [key]]
                  \<and> w_testAnchors w' = w_testAnchors w0"
    using a b w_fields gitCommit_fields [OF cm] by (simp split: if_splits)
  show ?thesis
    using co dc mr dl ts hist w_fields
    apply (rule_tac x = w in exI)
    apply (rule_tac x = digests in exI)
    apply (rule_tac x = messages in exI)
    apply (rule_tac x = out in exI)
    apply (rule_tac x = "?c" in exI)
    apply simp
    done
qed

lemma ex_delta_ac:
  "deltaCommits X0 Vetted [] (world_of repo_v repo_ac)
     = Inr ([replicate 20 1 @ replicate 12 0], [''Add record aa''], [oneline commit_c, oneline commit_a])"
  using nomatch_commit_a
  by (simp add: deltaCommits_def git_read_defs split_oneline subject_commit_c commit_a_simps
      match_commit_c hex_decode_encode extendSHA1_def
      sha1_Size_def sha256_Size_def go_copy_def make_bytes_def Let_def)

lemma ex_checkout_ac:
  "gitCheckout X0 Vetted ''master'' (world_of repo_v repo_ac) = (Inr (), world_of repo_v repo_ac)"
  by (simp add: gitCheckout_def ex_defs repo_ac_def st_defs commit_c_def Let_def)

lemma world_of_simps:
  "w_unvetted (world_of u v) = u" "w_vetted (world_of u v) = v" "w_lock (world_of u v) = False"
  "w_shutdown (world_of u v) = False" "w_testmode (world_of u v) = False"
  "w_testAnchors (world_of u v) = []" "w_lastAnchor (world_of u v) = []"
  "w_unconfirmed (world_of u v) = []" "w_timestamped (world_of u v) = []"
  by (simp_all add: world_of_def)

lemma X0_fails: "x_fails X0 = (\<lambda>_ _. False)"
  by (simp add: X0_def)

lemma ex_anchorRepo_ac:
  "\<exists>w'. anchorRepo X0 Vetted (world_of repo_v repo_ac) = (Inr (replicate 20 1 @ replicate 12 0), w')"
  unfolding anchorRepo_def
  apply (simp only: ex_checkout_ac prod.case sum.case)
  apply (simp only: world_of_simps ex_delta_ac gitFsck_def X0_fails if_False sum.case prod.case)
  apply (simp add: newAnchorRecord_def merkle_Root_def X0_def anchor_def world_of_def
      appendAuditTrail_def gitAdd_def gitCommit_def repo_ac_def st_defs commit_c_def
      empty_tree_def Let_def)
  done

text \<open>The theorem at a publication tier whose history is an anchor confirmation on top of
  one record commit.\<close>

theorem anchorRepo_spec_witness:
  "\<exists>w' c. anchorRepo X0 Vetted (world_of repo_v repo_ac)
             = (Inr (replicate 20 1 @ replicate 12 0), w')
     \<and> w_timestamped w' = [[replicate 20 1 @ replicate 12 0, replicate 20 1 @ replicate 12 0]]
     \<and> history (w_vetted w') ''master'' = c # history repo_ac ''master''
     \<and> c_message c = ''Anchor '' @ hex_EncodeToString (replicate 20 1 @ replicate 12 0)
          @ newline @ newline
          @ hex_EncodeToString (replicate 20 1 @ replicate 12 0) @ '' Add record aa'' @ newline"
proof -
  from ex_anchorRepo_ac obtain w' where
    e: "anchorRepo X0 Vetted (world_of repo_v repo_ac) = (Inr (replicate 20 1 @ replicate 12 0), w')"
    by blast
  from anchorRepo_spec [OF e] obtain w digests messages out c where
    co: "gitCheckout X0 Vetted ''master'' (world_of repo_v repo_ac) = (Inr (), w)"
    and dc: "deltaCommits X0 Vetted (w_lastAnchor (world_of repo_v repo_ac)) w
              = Inr (digests, messages, out)"
    and ts: "if w_testmode (world_of repo_v repo_ac)
             then w_timestamped w' = w_timestamped (world_of repo_v repo_ac)
                  \<and> w_testAnchors w' = AList.update (hex_EncodeToString (replicate 20 1 @ replicate 12 0))
                        False (w_testAnchors (world_of repo_v repo_ac))
             else w_timestamped w' = w_timestamped (world_of repo_v repo_ac)
                     @ [sort digests @ [replicate 20 1 @ replicate 12 0]]
                  \<and> w_testAnchors w' = w_testAnchors (world_of repo_v repo_ac)"
    and hi: "history (repo_of Vetted w') ''master''
               = c # history (repo_of Vetted (world_of repo_v repo_ac)) ''master''"
    and ms: "c_message c = markerAnchor @ '' '' @ hex_EncodeToString (replicate 20 1 @ replicate 12 0)
              @ newline @ newline
              @ concat (map (\<lambda>k. hex_EncodeToString (digests ! k) @ '' '' @ messages ! k @ newline)
                 [0..<length digests])"
    by blast
  from co ex_checkout_ac have w: "w = world_of repo_v repo_ac" by simp
  have la: "w_lastAnchor (world_of repo_v repo_ac) = []" by (simp add: world_of_def)
  from dc w la ex_delta_ac have d: "digests = [replicate 20 1 @ replicate 12 0]"
    "messages = [''Add record aa'']" by simp_all
  from ts d have t: "w_timestamped w'
      = [[replicate 20 1 @ replicate 12 0, replicate 20 1 @ replicate 12 0]]"
    by (simp add: world_of_def)
  from hi have h: "history (w_vetted w') ''master'' = c # history repo_ac ''master''"
    by (simp add: repo_of_def world_of_def)
  from ms d have m: "c_message c = ''Anchor '' @ hex_EncodeToString (replicate 20 1 @ replicate 12 0)
          @ newline @ newline
          @ hex_EncodeToString (replicate 20 1 @ replicate 12 0) @ '' Add record aa'' @ newline"
    by (simp add: markerAnchor_def)
  from e t h m show ?thesis by blast
qed

section \<open>Properties of the record branch\<close>

lemma gitPull_Inr:
  "gitPull X Unvetted f w = (Inr u, w') \<Longrightarrow>
     r_head (w_unvetted w') = ''master'' \<and> \<not> dirty (w_unvetted w')
     \<and> map_of (r_branches (w_unvetted w')) ''master'' \<noteq> None"
  by (auto simp: gitPull_def Let_def repo_of_def set_repo_def dirty_def head_tree_def history_def
      update_conv' split: if_splits list.splits)

lemma gitStash_clean:
  "\<not> dirty (w_unvetted w) \<Longrightarrow> gitStash X Unvetted w = (Inr u, w') \<Longrightarrow> w' = w"
  by (auto simp: gitStash_def Let_def repo_of_def set_repo_def dirty_def split: if_splits)

lemma gitCheckout_same:
  "\<not> dirty (w_unvetted w) \<Longrightarrow> r_head (w_unvetted w) = b \<Longrightarrow>
   gitCheckout X Unvetted b w = (Inr u, w') \<Longrightarrow> w' = w"
  by (auto simp: gitCheckout_def Let_def repo_of_def set_repo_def dirty_def head_tree_def
      branch_tree_def split: if_splits)

text \<open>C7, as amended: \<open>checkoutRecordBranch\<close> checks out the branch named by the token when
  it is listed (and is a 64-character digest), answering \<open>ErrRecordNotFound\<close> when the
  checkout fails; when it is not listed and the working tree has no directory of that
  name it answers \<open>ErrRecordNotFound\<close> and leaves the state as it is; when the directory is
  there it creates the branch. After it returned, the branch is checked out and
  \<open>updateRecord\<close> goes on there; its error is the error of \<open>updateRecord\<close>. For a token with
  neither branch nor directory \<open>UpdateUnvettedRecord\<close> returns \<open>ErrRecordNotFound\<close> in the
  state the pull left, with the lock released.\<close>

theorem checkoutRecordBranch_cases:
  "(gitBranches X Unvetted w = Inr branches \<and> i \<in> set branches \<and> util_IsDigest i \<longrightarrow>
      checkoutRecordBranch X i w
        = (case gitCheckout X Unvetted i w of
             (Inl e, w') \<Rightarrow> (Inl ErrRecordNotFound, w')
           | (Inr u, w') \<Rightarrow> (Inr True, w')))
   \<and> (gitBranches X Unvetted w = Inr branches \<and> \<not> (i \<in> set branches \<and> util_IsDigest i)
        \<and> os_Stat_dir X Unvetted i w = Inl ErrNotExist \<longrightarrow>
      checkoutRecordBranch X i w = (Inl ErrRecordNotFound, w))
   \<and> (gitBranches X Unvetted w = Inr branches \<and> \<not> (i \<in> set branches \<and> util_IsDigest i)
        \<and> os_Stat_dir X Unvetted i w = Inr () \<longrightarrow>
      checkoutRecordBranch X i w
        = (case gitNewBranch X Unvetted i w of
             (Inl e, w') \<Rightarrow> (Inl e, w')
           | (Inr u, w') \<Rightarrow> (Inr False, w')))
   \<and> (checkoutRecordBranch X i w = (Inr b, w') \<longrightarrow>
        r_head (w_unvetted w') = i \<and> map_of (r_branches (w_unvetted w')) i \<noteq> None)
   \<and> (checkoutRecordBranch X (hex_EncodeToString token) w = (Inl e, w') \<longrightarrow>
        updateRecord X token mdAppend mdOverwrite fa filesDel w = (Inl e, w'))
   \<and> (allow_empty (verifyContent X (mdAppend @ mdOverwrite) filesAdd filesDel) = Inr fa
        \<and> lock_Lock X w0 = (Inr (), w1) \<and> \<not> w_shutdown w1
        \<and> gitCheckout X Unvetted ''master'' w1 = (Inr (), w2)
        \<and> gitPull X Unvetted True w2 = (Inr (), w3)
        \<and> gitBranches X Unvetted w3 = Inr branches
        \<and> \<not> (hex_EncodeToString token \<in> set branches \<and> util_IsDigest (hex_EncodeToString token))
        \<and> os_Stat_dir X Unvetted (hex_EncodeToString token) w3 = Inl ErrNotExist
        \<and> \<not> x_fails X (OpGit Unvetted [''stash'']) w3
        \<and> \<not> x_fails X (OpGit Unvetted [''checkout'', ''master'']) w3 \<longrightarrow>
        UpdateUnvettedRecord X token mdAppend mdOverwrite filesAdd filesDel w0
          = (Inl ErrRecordNotFound, w3\<lparr>w_lock := False\<rparr>))"
proof (intro conjI impI)
  assume "gitBranches X Unvetted w = Inr branches \<and> i \<in> set branches \<and> util_IsDigest i"
  then show "checkoutRecordBranch X i w
        = (case gitCheckout X Unvetted i w of
             (Inl e, w') \<Rightarrow> (Inl ErrRecordNotFound, w')
           | (Inr u, w') \<Rightarrow> (Inr True, w'))"
    by (auto simp: checkoutRecordBranch_def list_ex_iff split: prod.splits sum.splits)
next
  assume "gitBranches X Unvetted w = Inr branches \<and> \<not> (i \<in> set branches \<and> util_IsDigest i)
        \<and> os_Stat_dir X Unvetted i w = Inl ErrNotExist"
  then show "checkoutRecordBranch X i w = (Inl ErrRecordNotFound, w)"
    by (auto simp: checkoutRecordBranch_def list_ex_iff)
next
  assume "gitBranches X Unvetted w = Inr branches \<and> \<not> (i \<in> set branches \<and> util_IsDigest i)
        \<and> os_Stat_dir X Unvetted i w = Inr ()"
  then show "checkoutRecordBranch X i w
        = (case gitNewBranch X Unvetted i w of
             (Inl e, w') \<Rightarrow> (Inl e, w')
           | (Inr u, w') \<Rightarrow> (Inr False, w'))"
    by (auto simp: checkoutRecordBranch_def list_ex_iff bindE_def split: prod.splits sum.splits)
next
  assume a: "checkoutRecordBranch X i w = (Inr b, w')"
  then show "r_head (w_unvetted w') = i"
    by (auto simp: checkoutRecordBranch_def Let_def bindE_def gitCheckout_def gitNewBranch_def
        repo_of_def set_repo_def split: sum.splits if_splits prod.splits)
  from a show "map_of (r_branches (w_unvetted w')) i \<noteq> None"
    by (auto simp: checkoutRecordBranch_def Let_def bindE_def gitCheckout_def gitNewBranch_def
        repo_of_def set_repo_def map_add_def split: sum.splits if_splits prod.splits)
next
  assume "checkoutRecordBranch X (hex_EncodeToString token) w = (Inl e, w')"
  then show "updateRecord X token mdAppend mdOverwrite fa filesDel w = (Inl e, w')"
    by (simp add: updateRecord_def Let_def bindE_def)
next
  assume a: "allow_empty (verifyContent X (mdAppend @ mdOverwrite) filesAdd filesDel) = Inr fa
        \<and> lock_Lock X w0 = (Inr (), w1) \<and> \<not> w_shutdown w1
        \<and> gitCheckout X Unvetted ''master'' w1 = (Inr (), w2)
        \<and> gitPull X Unvetted True w2 = (Inr (), w3)
        \<and> gitBranches X Unvetted w3 = Inr branches
        \<and> \<not> (hex_EncodeToString token \<in> set branches \<and> util_IsDigest (hex_EncodeToString token))
        \<and> os_Stat_dir X Unvetted (hex_EncodeToString token) w3 = Inl ErrNotExist
        \<and> \<not> x_fails X (OpGit Unvetted [''stash'']) w3
        \<and> \<not> x_fails X (OpGit Unvetted [''checkout'', ''master'']) w3"
  then have pull: "gitPull X Unvetted True w2 = (Inr (), w3)" by simp
  note p = gitPull_Inr [OF pull]
  from a have cb: "checkoutRecordBranch X (hex_EncodeToString token) w3 = (Inl ErrRecordNotFound, w3)"
    by (auto simp: checkoutRecordBranch_def list_ex_iff)
  then have ur: "updateRecord X token mdAppend mdOverwrite fa filesDel w3 = (Inl ErrRecordNotFound, w3)"
    by (simp add: updateRecord_def Let_def bindE_def)
  from a p have st: "gitStash X Unvetted w3 = (Inr (), w3)"
    by (simp add: gitStash_def Let_def repo_of_def set_repo_def dirty_def)
  from a p have cm: "gitCheckout X Unvetted ''master'' w3 = (Inr (), w3)"
    by (auto simp add: gitCheckout_def Let_def repo_of_def set_repo_def dirty_def head_tree_def
        branch_tree_def)
  from a ur st cm show "UpdateUnvettedRecord X token mdAppend mdOverwrite filesAdd filesDel w0
          = (Inl ErrRecordNotFound, w3\<lparr>w_lock := False\<rparr>)"
    by (simp add: UpdateUnvettedRecord_def with_lock_def bindE_def)
qed

lemma c_tree_commit_vet [simp]: "c_tree commit_vet = vet_tree"
  by (simp add: commit_vet_def)

lemma hex_neq_master: "length bs = 32 \<Longrightarrow> hex_EncodeToString bs \<noteq> ''master''"
proof
  assume "length bs = 32" and "hex_EncodeToString bs = ''master''"
  then have "length (hex_EncodeToString bs) = length ''master''" by simp
  with \<open>length bs = 32\<close> show False by (simp add: hex_length)
qed

text \<open>C7, as stated, fails: the record is in the working tree of master and has no branch,
  and \<open>UpdateUnvettedRecord\<close> does not refuse; it creates the branch and commits the
  update there.\<close>

theorem UpdateUnvettedRecord_no_branch_counterexample:
  "map_of (r_branches (w_unvetted (world_of repo_m repo_m))) (hex_EncodeToString tok) = None
   \<and> (\<exists>brm w'. UpdateUnvettedRecord X0 tok [] [] [file_b] [] (world_of repo_m repo_m) = (Inr brm, w')
        \<and> Version brm = 2
        \<and> length (history (w_unvetted w') (hex_EncodeToString tok)) = 3)"
  unfolding UpdateUnvettedRecord_def updateRecord_def tid_def [symmetric] Let_def
  apply (simp only: append.simps verify_file_b allow_empty_def sum.case)
  by (simp add: checkoutRecordBranch_def gitBranches_def tid_IsDigest os_Stat_dir_def
      op_defs gitNewBranch_def gitPull_def
      loadMD_def updateMetadata_def WriteFile_payload_def ReadDir_payload_def gitDiff_def
      createMD_def merkle_Root_def go_copy_def make_bytes_def sha256_Size_def
      world_of_def repo_m_def X0_def st_defs vet_tree_def vet_md_def rec_md_def update_conv'
      Let_def)

lemma ex_branches_u:
  "gitBranches X0 Unvetted ((world_of repo_u repo_v)\<lparr>w_lock := True\<rparr>) = Inr [''master'', tid]"
  by (simp add: gitBranches_def X0_fails repo_of_def world_of_def repo_u_def)

lemma ex_verify_empty: "allow_empty (verifyContent X0 ([] @ []) [] []) = Inr []"
  by (simp add: verifyContent_def allow_empty_def)

text \<open>The theorem at the example record with its branch, at the vetted record without a
  branch, and at the token of no record.\<close>

theorem checkoutRecordBranch_cases_witness:
  "checkoutRecordBranch X0 tid ((world_of repo_u repo_v)\<lparr>w_lock := True\<rparr>)
     = (Inr True, (world_of (repo_u\<lparr>r_head := tid, r_wt := rec_tree\<rparr>) repo_v)\<lparr>w_lock := True\<rparr>)
   \<and> r_head (w_unvetted ((world_of (repo_u\<lparr>r_head := tid, r_wt := rec_tree\<rparr>) repo_v)\<lparr>w_lock := True\<rparr>)) = tid
   \<and> checkoutRecordBranch X0 (hex_EncodeToString tok2) (world_of repo_v repo_v)
       = (Inl ErrRecordNotFound, world_of repo_v repo_v)
   \<and> updateRecord X0 tok2 [] [] [] [] (world_of repo_v repo_v)
       = (Inl ErrRecordNotFound, world_of repo_v repo_v)
   \<and> checkoutRecordBranch X0 tid (world_of repo_m repo_m)
       = (Inr False, world_of (repo_m\<lparr>r_branches := r_branches repo_m @ [(tid, [commit_vet, commit_a])],
                                    r_head := tid\<rparr>) repo_m)
   \<and> UpdateUnvettedRecord X0 tok2 [] [] [] [] (world_of repo_v repo_v)
       = (Inl ErrRecordNotFound, world_of repo_v repo_v)"
proof -
  let ?U = "(world_of repo_u repo_v)\<lparr>w_lock := True\<rparr>"
  let ?U2 = "(world_of (repo_u\<lparr>r_head := tid, r_wt := rec_tree\<rparr>) repo_v)\<lparr>w_lock := True\<rparr>"
  let ?V = "world_of repo_v repo_v"
  let ?V1 = "(world_of repo_v repo_v)\<lparr>w_lock := True\<rparr>"
  let ?M = "world_of repo_m repo_m"
  have n2: "hex_EncodeToString tok2 \<noteq> ''master''"
    by (rule hex_neq_master) (simp add: tok2_def)
  have bv: "gitBranches X0 Unvetted ?V = Inr [''master'']" "gitBranches X0 Unvetted ?V1 = Inr [''master'']"
    by (simp_all add: gitBranches_def X0_fails repo_of_def world_of_def repo_v_def)
  have sv: "os_Stat_dir X0 Unvetted (hex_EncodeToString tok2) ?V = Inl ErrNotExist"
    "os_Stat_dir X0 Unvetted (hex_EncodeToString tok2) ?V1 = Inl ErrNotExist"
    by (simp_all add: os_Stat_dir_def X0_fails world_of_def repo_v_def st_defs empty_tree_def)
  have bm: "gitBranches X0 Unvetted ?M = Inr [''master'']"
    by (simp add: gitBranches_def X0_fails repo_of_def world_of_def repo_m_def)
  have sm: "os_Stat_dir X0 Unvetted tid ?M = Inr ()"
    by (simp add: os_Stat_dir_def X0_fails world_of_def repo_m_def st_defs vet_tree_def)
  have nm: "gitNewBranch X0 Unvetted tid ?M
     = (Inr (), world_of (repo_m\<lparr>r_branches := r_branches repo_m @ [(tid, [commit_vet, commit_a])],
                                    r_head := tid\<rparr>) repo_m)"
    by (simp add: gitNewBranch_def X0_fails world_of_def repo_m_def st_defs Let_def)
  have pv: "gitPull X0 Unvetted True ?V1 = (Inr (), ?V1)"
    by (simp add: gitPull_def X0_fails world_of_def repo_v_def st_defs Let_def)
  have cu: "gitCheckout X0 Unvetted ''master'' ?V1 = (Inr (), ?V1)"
    by (simp add: gitCheckout_def X0_fails world_of_def repo_v_def st_defs Let_def)
  note t1 = checkoutRecordBranch_cases [where X = X0 and w = ?U and branches = "[''master'', tid]"
      and i = tid]
  note t2 = checkoutRecordBranch_cases [where X = X0 and w = ?V and branches = "[''master'']"
      and i = "hex_EncodeToString tok2" and token = tok2 and e = ErrRecordNotFound and w' = ?V
      and mdAppend = "[]" and mdOverwrite = "[]" and fa = "[]" and filesDel = "[]"
      and filesAdd = "[]" and ?w0.0 = ?V and ?w1.0 = ?V1 and ?w2.0 = ?V1 and ?w3.0 = ?V1]
  note t3 = checkoutRecordBranch_cases [where X = X0 and w = ?M and branches = "[''master'']"
      and i = tid]
  from t1 ex_branches_u tid_IsDigest ex_checkout
  have c1: "checkoutRecordBranch X0 tid ?U = (Inr True, ?U2)" by simp
  have c1': "r_head (w_unvetted ?U2) = tid" by (simp add: world_of_def)
  from t2 bv sv n2 have c2: "checkoutRecordBranch X0 (hex_EncodeToString tok2) ?V
       = (Inl ErrRecordNotFound, ?V)" by simp
  with t2 have c2': "updateRecord X0 tok2 [] [] [] [] ?V = (Inl ErrRecordNotFound, ?V)"
    by blast
  from t3 bm sm nm have c3: "checkoutRecordBranch X0 tid ?M
       = (Inr False, world_of (repo_m\<lparr>r_branches := r_branches repo_m @ [(tid, [commit_vet, commit_a])],
                                    r_head := tid\<rparr>) repo_m)"
    by simp
  have c4: "UpdateUnvettedRecord X0 tok2 [] [] [] [] ?V = (Inl ErrRecordNotFound, ?V)"
    using t2 ex_verify_empty ex_lock_v cu bv sv n2 pv
    by (simp add: X0_fails world_of_def)
  from c1 c1' c2 c2' c3 c4 show ?thesis by blast
qed

section \<open>Properties of the failure paths\<close>

lemma gitCheckout_post:
  "gitCheckout X p b w = (Inr u, w') \<Longrightarrow>
     r_head (repo_of p w') = b \<and> \<not> dirty (repo_of p w')
     \<and> r_branches (repo_of p w') = r_branches (repo_of p w)"
  by (auto simp: gitCheckout_def Let_def dirty_def head_tree_def branch_tree_def history_def
      split: if_splits)




lemma tid_tmp_neq_master [simp]: "tid @ ''_tmp'' \<noteq> ''master''" "''master'' \<noteq> tid @ ''_tmp''"
proof -
  show "tid @ ''_tmp'' \<noteq> ''master''"
  proof
    assume "tid @ ''_tmp'' = ''master''"
    then have "length (tid @ ''_tmp'') = length ''master''" by (rule arg_cong)
    then show False by (simp add: tid_length)
  qed
  then show "''master'' \<noteq> tid @ ''_tmp''" by (rule not_sym)
qed








section \<open>Properties of an update without changes\<close>

lemma set_wt_refs [simp]: "refs (set_wt Unvetted t w) = refs w"
  by (simp add: refs_def set_wt_def set_repo_def repo_of_def)

lemma refs_eq:
  "refs w' = refs w \<Longrightarrow>
     r_branches (w_unvetted w') = r_branches (w_unvetted w)
     \<and> r_head (w_unvetted w') = r_head (w_unvetted w) \<and> w_vetted w' = w_vetted w
     \<and> w_lock w' = w_lock w \<and> w_shutdown w' = w_shutdown w"
  by (simp add: refs_def)

lemma WriteFile_payload_refs [simp]: "refs (snd (WriteFile_payload X Unvetted i n b w)) = refs w"
  by (simp add: WriteFile_payload_def split: option.splits)

lemma write_stream_refs [simp]: "refs (snd (write_stream X Unvetted i k s a w)) = refs w"
  by (simp add: write_stream_def split: option.splits)

lemma gitAdd_refs [simp]: "refs (snd (gitAdd X p f w)) = refs w"
  by (simp add: gitAdd_def)

lemma gitRm_refs [simp]: "refs (snd (gitRm X Unvetted i v w)) = refs w"
  by (simp add: gitRm_def split: option.splits)

lemma updateRecord_files_refs [simp]: "refs (snd (updateRecord_files X i fa w)) = refs w"
proof (induction fa arbitrary: w)
  case Nil
  show ?case by simp
next
  case (Cons f fa)
  show ?case
    by simp (intro bindE_keeps; simp add: Cons.IH)
qed

lemma updateRecord_deletes_refs [simp]: "refs (snd (updateRecord_deletes X i fd w)) = refs w"
proof (induction fd arbitrary: w)
  case Nil
  show ?case by simp
next
  case (Cons f fd)
  show ?case
    by simp (intro bindE_keeps; simp add: Cons.IH)
qed

lemma updateMetadata_loop_refs [simp]: "refs (snd (updateMetadata_loop X i a md w)) = refs w"
proof (induction md arbitrary: w)
  case Nil
  show ?case by simp
next
  case (Cons m md)
  show ?case
    by simp (intro bindE_keeps; simp add: Cons.IH)
qed

lemma updateMetadata_refs [simp]: "refs (snd (updateMetadata X i ma mo w)) = refs w"
  unfolding updateMetadata_def by (intro bindE_keeps; simp)

lemma checkoutRecordBranch_post:
  assumes "checkoutRecordBranch X i w = (Inr b, w1)" and "\<not> dirty (w_unvetted w)"
  shows "\<not> dirty (w_unvetted w1)" and "r_head (w_unvetted w1) = i"
    and "r_branches (w_unvetted w1) = r_branches (w_unvetted w)
         \<or> map_of (r_branches (w_unvetted w)) i = None
           \<and> r_branches (w_unvetted w1)
              = r_branches (w_unvetted w) @ [(i, history (w_unvetted w) (r_head (w_unvetted w)))]"
    and "w_vetted w1 = w_vetted w"
  using assms
  by (auto simp: checkoutRecordBranch_def Let_def bindE_def gitCheckout_def gitNewBranch_def
      repo_of_def set_repo_def dirty_def head_tree_def branch_tree_def history_def map_add_def
      split: sum.splits if_splits prod.splits)

lemma gitDiff_empty: "gitDiff X p w = Inr [] \<Longrightarrow> \<not> dirty (repo_of p w)"
  by (simp add: gitDiff_def split: if_splits)

text \<open>C6: when every step of the update succeeds and \<open>git diff\<close> then shows no change,
  \<open>updateRecord\<close> returns \<open>ErrNoChanges\<close> before it writes the record metadata, and
  \<open>UpdateUnvettedRecord\<close> returns it after checking out master, without a stash: the
  working tree at the diff is the tree that was checked out (so version, status and
  Merkle root are as they were), no branch history has changed, every branch history
  is one that was there before the call, and the publication tier is untouched.\<close>

theorem UpdateUnvettedRecord_no_changes:
  "allow_empty (verifyContent X (mdAppend @ mdOverwrite) filesAdd filesDel) = Inr fa
      \<and> lock_Lock X w0 = (Inr (), l1) \<and> \<not> w_shutdown l1
      \<and> gitCheckout X Unvetted ''master'' l1 = (Inr (), l2)
      \<and> gitPull X Unvetted True l2 = (Inr (), w)
      \<and> checkoutRecordBranch X (hex_EncodeToString token) w = (Inr b, w1)
      \<and> loadMD X Unvetted (hex_EncodeToString token) w1 = Inr brm
      \<and> (Status brm = MDStatusVetted \<or> Status brm = MDStatusUnvetted
          \<or> Status brm = MDStatusIterationUnvetted \<or> Status brm = MDStatusLocked)
      \<and> updateRecord_check X (hex_EncodeToString token) filesDel w1 = None
      \<and> updateRecord_files X (hex_EncodeToString token) fa w1 = (Inr (), w2)
      \<and> updateRecord_deletes X (hex_EncodeToString token) filesDel w2 = (Inr (), w3)
      \<and> updateMetadata X (hex_EncodeToString token) mdAppend mdOverwrite w3 = (Inr (), w4)
      \<and> ReadDir_payload X Unvetted (hex_EncodeToString token) w4 = Inr files
      \<and> updateRecord_hashes X (hex_EncodeToString token) files [] w4 = Inr hashes
      \<and> gitDiff X Unvetted w4 = Inr []
      \<and> \<not> x_fails X (OpGit Unvetted [''checkout'', ''master'']) w4 \<longrightarrow>
   (\<exists>w5. UpdateUnvettedRecord X token mdAppend mdOverwrite filesAdd filesDel w0
            = (Inl ErrNoChanges, w5\<lparr>w_lock := False\<rparr>)
      \<and> updateRecord X token mdAppend mdOverwrite fa filesDel w = (Inl ErrNoChanges, w4)
      \<and> gitCheckout X Unvetted ''master'' w4 = (Inr (), w5)
      \<and> wt Unvetted w4 = wt Unvetted w1
      \<and> r_branches (w_unvetted w5) = r_branches (w_unvetted w1)
      \<and> set (map snd (r_branches (w_unvetted w5))) \<subseteq> set (map snd (r_branches (w_unvetted w)))
      \<and> w_vetted w5 = w_vetted w)"
proof
  assume a: "allow_empty (verifyContent X (mdAppend @ mdOverwrite) filesAdd filesDel) = Inr fa
      \<and> lock_Lock X w0 = (Inr (), l1) \<and> \<not> w_shutdown l1
      \<and> gitCheckout X Unvetted ''master'' l1 = (Inr (), l2)
      \<and> gitPull X Unvetted True l2 = (Inr (), w)
      \<and> checkoutRecordBranch X (hex_EncodeToString token) w = (Inr b, w1)
      \<and> loadMD X Unvetted (hex_EncodeToString token) w1 = Inr brm
      \<and> (Status brm = MDStatusVetted \<or> Status brm = MDStatusUnvetted
          \<or> Status brm = MDStatusIterationUnvetted \<or> Status brm = MDStatusLocked)
      \<and> updateRecord_check X (hex_EncodeToString token) filesDel w1 = None
      \<and> updateRecord_files X (hex_EncodeToString token) fa w1 = (Inr (), w2)
      \<and> updateRecord_deletes X (hex_EncodeToString token) filesDel w2 = (Inr (), w3)
      \<and> updateMetadata X (hex_EncodeToString token) mdAppend mdOverwrite w3 = (Inr (), w4)
      \<and> ReadDir_payload X Unvetted (hex_EncodeToString token) w4 = Inr files
      \<and> updateRecord_hashes X (hex_EncodeToString token) files [] w4 = Inr hashes
      \<and> gitDiff X Unvetted w4 = Inr []
      \<and> \<not> x_fails X (OpGit Unvetted [''checkout'', ''master'']) w4"
  let ?i = "hex_EncodeToString token"
  from a have pull: "gitPull X Unvetted True l2 = (Inr (), w)"
    and cb: "checkoutRecordBranch X ?i w = (Inr b, w1)"
    and f2: "updateRecord_files X ?i fa w1 = (Inr (), w2)"
    and f3: "updateRecord_deletes X ?i filesDel w2 = (Inr (), w3)"
    and f4: "updateMetadata X ?i mdAppend mdOverwrite w3 = (Inr (), w4)"
    and df: "gitDiff X Unvetted w4 = Inr []"
    and nf: "\<not> x_fails X (OpGit Unvetted [''checkout'', ''master'']) w4"
    by simp_all
  note p = gitPull_Inr [OF pull]
  from p have clean: "\<not> dirty (w_unvetted w)" by simp
  note c = checkoutRecordBranch_post [OF cb clean]
  have r2: "refs w2 = refs w1"
    using updateRecord_files_refs [of X ?i fa w1] f2 by simp
  have r3: "refs w3 = refs w2"
    using updateRecord_deletes_refs [of X ?i filesDel w2] f3 by simp
  have r4: "refs w4 = refs w3"
    using updateMetadata_refs [of X ?i mdAppend mdOverwrite w3] f4 by simp
  from r2 r3 r4 have r41: "refs w4 = refs w1" by simp
  note e = refs_eq [OF r41]
  from gitDiff_empty [OF df] have d4: "\<not> dirty (w_unvetted w4)" by (simp add: repo_of_def)
  have wt41: "wt Unvetted w4 = wt Unvetted w1"
    using d4 c(1) e by (simp add: wt_def repo_of_def dirty_def head_tree_def history_def)
  from c(3) p have m1: "map_of (r_branches (w_unvetted w1)) ''master'' \<noteq> None"
    by (auto simp: map_add_def)
  let ?w5 = "w4\<lparr>w_unvetted := (w_unvetted w4)\<lparr>r_head := ''master'',
                 r_wt := branch_tree (w_unvetted w4) ''master''\<rparr>\<rparr>"
  have co: "gitCheckout X Unvetted ''master'' w4 = (Inr (), ?w5)"
    using nf d4 m1 e by (simp add: gitCheckout_def Let_def repo_of_def set_repo_def)
  have ur: "updateRecord X token mdAppend mdOverwrite fa filesDel w = (Inl ErrNoChanges, w4)"
    using a by (simp add: updateRecord_def Let_def bindE_def)
  have uu: "UpdateUnvettedRecord X token mdAppend mdOverwrite filesAdd filesDel w0
            = (Inl ErrNoChanges, ?w5\<lparr>w_lock := False\<rparr>)"
    using a ur co by (simp add: UpdateUnvettedRecord_def with_lock_def bindE_def)
  have b5: "r_branches (w_unvetted ?w5) = r_branches (w_unvetted w1)"
    using e by simp
  have sub: "set (map snd (r_branches (w_unvetted ?w5))) \<subseteq> set (map snd (r_branches (w_unvetted w)))"
  proof -
    from p obtain h where h: "map_of (r_branches (w_unvetted w)) ''master'' = Some h" by auto
    then have "(''master'', h) \<in> set (r_branches (w_unvetted w))" by (rule map_of_SomeD)
    then have "h \<in> snd ` set (r_branches (w_unvetted w))" by force
    moreover from h p have "history (w_unvetted w) (r_head (w_unvetted w)) = h"
      by (simp add: history_def)
    ultimately have "history (w_unvetted w) (r_head (w_unvetted w))
        \<in> snd ` set (r_branches (w_unvetted w))" by simp
    with c(3) b5 show ?thesis by (auto simp: image_iff) force+
  qed
  have v5: "w_vetted ?w5 = w_vetted w" using e c(4) by simp
  from uu ur co wt41 b5 sub v5
  show "\<exists>w5. UpdateUnvettedRecord X token mdAppend mdOverwrite filesAdd filesDel w0
            = (Inl ErrNoChanges, w5\<lparr>w_lock := False\<rparr>)
      \<and> updateRecord X token mdAppend mdOverwrite fa filesDel w = (Inl ErrNoChanges, w4)
      \<and> gitCheckout X Unvetted ''master'' w4 = (Inr (), w5)
      \<and> wt Unvetted w4 = wt Unvetted w1
      \<and> r_branches (w_unvetted w5) = r_branches (w_unvetted w1)
      \<and> set (map snd (r_branches (w_unvetted w5))) \<subseteq> set (map snd (r_branches (w_unvetted w)))
      \<and> w_vetted w5 = w_vetted w"
    by (intro exI [of _ ?w5] conjI)
qed

lemma ex_update_steps:
  "gitCheckout X0 Unvetted ''master'' ((world_of repo_u repo_v)\<lparr>w_lock := True\<rparr>)
     = (Inr (), (world_of repo_u repo_v)\<lparr>w_lock := True\<rparr>)"
  "gitPull X0 Unvetted True ((world_of repo_u repo_v)\<lparr>w_lock := True\<rparr>)
     = (Inr (), (world_of repo_u repo_v)\<lparr>w_lock := True\<rparr>)"
  "loadMD X0 Unvetted tid ((world_of (repo_u\<lparr>r_head := tid, r_wt := rec_tree\<rparr>) repo_v)\<lparr>w_lock := True\<rparr>)
     = Inr rec_md"
  "updateMetadata X0 tid [] [] ((world_of (repo_u\<lparr>r_head := tid, r_wt := rec_tree\<rparr>) repo_v)\<lparr>w_lock := True\<rparr>)
     = (Inr (), (world_of (repo_u\<lparr>r_head := tid, r_wt := rec_tree\<rparr>) repo_v)\<lparr>w_lock := True\<rparr>)"
  "ReadDir_payload X0 Unvetted tid ((world_of (repo_u\<lparr>r_head := tid, r_wt := rec_tree\<rparr>) repo_v)\<lparr>w_lock := True\<rparr>)
     = Inr [(''a.txt'', [1, 2, 3])]"
  "gitDiff X0 Unvetted ((world_of (repo_u\<lparr>r_head := tid, r_wt := rec_tree\<rparr>) repo_v)\<lparr>w_lock := True\<rparr>)
     = Inr []"
  by (simp_all add: gitCheckout_def gitPull_def loadMD_def updateMetadata_def ReadDir_payload_def
      gitDiff_def X0_fails world_of_def repo_u_def repo_v_def st_defs rec_tree_def bindE_def Let_def)

text \<open>The theorem at an update of the example record that adds and deletes nothing: the
  call returns \<open>ErrNoChanges\<close> and the state is as before.\<close>

theorem UpdateUnvettedRecord_no_changes_witness:
  "UpdateUnvettedRecord X0 tok [] [] [] [] (world_of repo_u repo_v)
     = (Inl ErrNoChanges, world_of repo_u repo_v)
   \<and> updateRecord X0 tok [] [] [] [] ((world_of repo_u repo_v)\<lparr>w_lock := True\<rparr>)
     = (Inl ErrNoChanges, (world_of (repo_u\<lparr>r_head := tid, r_wt := rec_tree\<rparr>) repo_v)\<lparr>w_lock := True\<rparr>)"
proof -
  let ?U = "world_of repo_u repo_v"
  let ?U1 = "(world_of repo_u repo_v)\<lparr>w_lock := True\<rparr>"
  let ?U2 = "(world_of (repo_u\<lparr>r_head := tid, r_wt := rec_tree\<rparr>) repo_v)\<lparr>w_lock := True\<rparr>"
  have up: "\<not> w_shutdown ?U1" "Status rec_md = MDStatusUnvetted"
    by (simp_all add: world_of_def rec_md_def)
  have cb: "checkoutRecordBranch X0 tid ?U1 = (Inr True, ?U2)"
    by (simp add: checkoutRecordBranch_def ex_branches_u tid_IsDigest ex_checkout)
  have hs: "updateRecord_hashes X0 tid [(''a.txt'', [1, 2, 3])] [] ?U2
     = Inr [go_copy (make_bytes sha256_Size) (x_sha256 X0 [1, 2, 3])]"
    by (simp add: X0_fails)
  note th = UpdateUnvettedRecord_no_changes [where X = X0 and mdAppend = "[]" and mdOverwrite = "[]"
      and filesAdd = "[]" and filesDel = "[]" and fa = "[]" and ?w0.0 = ?U and ?l1.0 = ?U1
      and ?l2.0 = ?U1 and w = ?U1 and token = tok and b = True and ?w1.0 = ?U2 and brm = rec_md
      and ?w2.0 = ?U2 and ?w3.0 = ?U2 and ?w4.0 = ?U2 and files = "[(''a.txt'', [1, 2, 3])]"
      and hashes = "[go_copy (make_bytes sha256_Size) (x_sha256 X0 [1, 2, 3])]", folded tid_def]
  from th ex_verify_empty ex_lock up ex_update_steps cb hs
  have "\<exists>w5. UpdateUnvettedRecord X0 tok [] [] [] [] ?U = (Inl ErrNoChanges, w5\<lparr>w_lock := False\<rparr>)
      \<and> updateRecord X0 tok [] [] [] [] ?U1 = (Inl ErrNoChanges, ?U2)
      \<and> gitCheckout X0 Unvetted ''master'' ?U2 = (Inr (), w5)"
    by (simp add: X0_fails) blast
  then show ?thesis
    by (auto simp: ex_checkout_master) (simp add: world_of_def)
qed

section \<open>Properties of the Merkle root of a record\<close>

lemma workdir_set_wt [simp]: "workdir (set_wt Unvetted t w) i = map_of (t_records t) i"
  by (simp add: workdir_def wt_def)

lemma sort_map_sort_key: "sort (map f (sort_key g xs)) = sort (map f xs)"
  by (rule properties_for_sort) simp_all

lemma spec_MerkleRoot_sort_key [simp]: "spec_MerkleRoot X (sort_key fst fs) = spec_MerkleRoot X fs"
  by (simp add: spec_MerkleRoot_def sort_map_sort_key)

lemma updateRecord_hashes_Inr:
  "updateRecord_hashes X i fs acc w = Inr hs \<Longrightarrow>
     hs = acc @ map (\<lambda>v. go_copy (make_bytes sha256_Size) (x_sha256 X (snd v))) fs"
proof (induction fs arbitrary: acc)
  case Nil
  then show ?case by simp
next
  case (Cons v fs)
  from Cons.prems Cons.IH [of "acc @ [go_copy (make_bytes sha256_Size) (x_sha256 X (snd v))]"]
  show ?case by (simp split: if_splits)
qed

lemma ReadDir_payload_Inr:
  "ReadDir_payload X Unvetted i w = Inr files \<Longrightarrow>
     \<exists>d fs. workdir w i = Some d \<and> rd_payload d = Some fs \<and> files = sort_key fst fs"
  by (auto simp: ReadDir_payload_def workdir_def split: if_splits option.splits)

lemma createMD_Inr:
  "createMD X Unvetted i st v hashes token w = (Inr brm, w') \<Longrightarrow>
     hashes \<noteq> [] \<and> Merkle brm = go_copy (make_bytes sha256_Size) (x_merkle_tree X (sort hashes))
     \<and> (\<exists>d. workdir w i = Some d \<and> workdir w' i = Some (d\<lparr>rd_md := Some brm\<rparr>))
     \<and> refs w' = refs w"
  by (auto simp: createMD_def merkle_Root_def updateMD_def bindE_def Let_def workdir_def update_conv'
      wt_def split: if_splits option.splits)

lemma gitAdd_Inr: "gitAdd X p f w = (Inr u, w') \<Longrightarrow> w' = w"
  by (simp add: gitAdd_def split: if_splits)

lemma gitCommit_committed:
  "gitCommit X Unvetted msg w = (Inr u, w') \<Longrightarrow>
     committed_record w' (r_head (w_unvetted w)) i = workdir w i
     \<and> (\<forall>b. b \<noteq> r_head (w_unvetted w) \<longrightarrow> history (w_unvetted w') b = history (w_unvetted w) b)"
  by (auto simp: gitCommit_def Let_def committed_record_def workdir_def wt_def branch_tree_def
      history_def repo_of_def set_repo_def update_conv' split: if_splits)

lemma checkoutRecordBranch_head:
  "checkoutRecordBranch X i w = (Inr b, w1) \<Longrightarrow> r_head (w_unvetted w1) = i"
  by (auto simp: checkoutRecordBranch_def Let_def bindE_def gitCheckout_def gitNewBranch_def
      repo_of_def set_repo_def split: sum.splits if_splits prod.splits)

lemma updateRecord_Inr:
  assumes "updateRecord X token mdAppend mdOverwrite fa filesDel w = (Inr brmNew, w')"
  obtains b w1 and brm :: RecordMetadata and w2 w3 w4 files hashes w5 where
    "checkoutRecordBranch X (hex_EncodeToString token) w = (Inr b, w1)"
    "updateRecord_files X (hex_EncodeToString token) fa w1 = (Inr (), w2)"
    "updateRecord_deletes X (hex_EncodeToString token) filesDel w2 = (Inr (), w3)"
    "updateMetadata X (hex_EncodeToString token) mdAppend mdOverwrite w3 = (Inr (), w4)"
    "ReadDir_payload X Unvetted (hex_EncodeToString token) w4 = Inr files"
    "updateRecord_hashes X (hex_EncodeToString token) files [] w4 = Inr hashes"
    "createMD X Unvetted (hex_EncodeToString token) MDStatusIterationUnvetted (Version brm + 1)
       hashes token w4 = (Inr brmNew, w5)"
    "gitCommit X Unvetted (''Update record '' @ hex_EncodeToString token) w5 = (Inr (), w')"
proof -
  let ?i = "hex_EncodeToString token"
  from assms obtain b w1 where cb: "checkoutRecordBranch X ?i w = (Inr b, w1)"
    unfolding updateRecord_def Let_def by (auto simp: bindE_def split: prod.splits sum.splits)
  with assms obtain brm where md: "loadMD X Unvetted ?i w1 = Inr brm"
    unfolding updateRecord_def Let_def by (auto simp: bindE_def split: sum.splits)
  from assms cb md have st: "Status brm = MDStatusVetted \<or> Status brm = MDStatusUnvetted
                \<or> Status brm = MDStatusIterationUnvetted \<or> Status brm = MDStatusLocked"
    and ck: "updateRecord_check X ?i filesDel w1 = None"
    unfolding updateRecord_def Let_def by (auto simp: bindE_def split: if_splits option.splits)
  from assms cb md st ck obtain w2 where f2: "updateRecord_files X ?i fa w1 = (Inr (), w2)"
    unfolding updateRecord_def Let_def by (cases "updateRecord_files X ?i fa w1")
      (auto simp: bindE_def split: sum.splits)
  from assms cb md st ck f2 obtain w3 where f3: "updateRecord_deletes X ?i filesDel w2 = (Inr (), w3)"
    unfolding updateRecord_def Let_def by (cases "updateRecord_deletes X ?i filesDel w2")
      (auto simp: bindE_def split: sum.splits)
  from assms cb md st ck f2 f3 obtain w4 where f4: "updateMetadata X ?i mdAppend mdOverwrite w3 = (Inr (), w4)"
    unfolding updateRecord_def Let_def by (cases "updateMetadata X ?i mdAppend mdOverwrite w3")
      (auto simp: bindE_def split: sum.splits)
  from assms cb md st ck f2 f3 f4 obtain files where rd: "ReadDir_payload X Unvetted ?i w4 = Inr files"
    unfolding updateRecord_def Let_def by (cases "ReadDir_payload X Unvetted ?i w4")
      (auto simp: bindE_def split: if_splits)
  from assms cb md st ck f2 f3 f4 rd obtain hashes where hs: "updateRecord_hashes X ?i files [] w4 = Inr hashes"
    unfolding updateRecord_def Let_def by (cases "updateRecord_hashes X ?i files [] w4")
      (auto simp: bindE_def)
  from assms cb md st ck f2 f3 f4 rd hs obtain w5 where
    cm: "createMD X Unvetted ?i MDStatusIterationUnvetted (Version brm + 1) hashes token w4 = (Inr brmNew, w5)"
    and gc: "gitCommit X Unvetted (''Update record '' @ ?i) w5 = (Inr (), w')"
    unfolding updateRecord_def Let_def
    by (cases "gitDiff X Unvetted w4")
      (auto simp: bindE_def gitAdd_def split: if_splits sum.splits prod.splits)
  show ?thesis by (rule that [OF cb f2 f3 f4 rd hs cm gc])
qed

lemma committed_record_cong:
  "r_branches (w_unvetted w') = r_branches (w_unvetted w) \<Longrightarrow>
     committed_record w' b i = committed_record w b i"
  by (simp add: committed_record_def branch_tree_def history_def)

lemma committed_record_lock [simp]:
  "committed_record (w\<lparr>w_lock := l\<rparr>) b i = committed_record w b i"
  by (simp add: committed_record_def)

lemma updateRecord_merkle:
  assumes "updateRecord X token mdAppend mdOverwrite fa filesDel w = (Inr brmNew, w')"
  shows "\<exists>d fs. committed_record w' (hex_EncodeToString token) (hex_EncodeToString token) = Some d
           \<and> rd_md d = Some brmNew \<and> rd_payload d = Some fs \<and> fs \<noteq> []
           \<and> Merkle brmNew = spec_MerkleRoot X fs"
proof -
  let ?i = "hex_EncodeToString token"
  from assms obtain b w1 and brm :: RecordMetadata and w2 w3 w4 files hashes w5 where
    cb: "checkoutRecordBranch X ?i w = (Inr b, w1)"
    and f2: "updateRecord_files X ?i fa w1 = (Inr (), w2)"
    and f3: "updateRecord_deletes X ?i filesDel w2 = (Inr (), w3)"
    and f4: "updateMetadata X ?i mdAppend mdOverwrite w3 = (Inr (), w4)"
    and rd: "ReadDir_payload X Unvetted ?i w4 = Inr files"
    and hs: "updateRecord_hashes X ?i files [] w4 = Inr hashes"
    and cm: "createMD X Unvetted ?i MDStatusIterationUnvetted (Version brm + 1) hashes token w4
              = (Inr brmNew, w5)"
    and gc: "gitCommit X Unvetted (''Update record '' @ ?i) w5 = (Inr (), w')"
    by (rule updateRecord_Inr)
  have r2: "refs w2 = refs w1"
    using updateRecord_files_refs [of X ?i fa w1] f2 by simp
  have r3: "refs w3 = refs w2"
    using updateRecord_deletes_refs [of X ?i filesDel w2] f3 by simp
  have r4: "refs w4 = refs w3"
    using updateMetadata_refs [of X ?i mdAppend mdOverwrite w3] f4 by simp
  note c = createMD_Inr [OF cm]
  from r2 r3 r4 c have "refs w5 = refs w1" by simp
  from refs_eq [OF this] checkoutRecordBranch_head [OF cb]
  have hd: "r_head (w_unvetted w5) = ?i" by simp
  from ReadDir_payload_Inr [OF rd] obtain d fs where
    d: "workdir w4 ?i = Some d" "rd_payload d = Some fs" "files = sort_key fst fs" by blast
  from updateRecord_hashes_Inr [OF hs]
  have h: "hashes = map (\<lambda>v. go_copy (make_bytes sha256_Size) (x_sha256 X (snd v))) files" by simp
  from c d have w5: "workdir w5 ?i = Some (d\<lparr>rd_md := Some brmNew\<rparr>)" by auto
  from gitCommit_committed [OF gc, of ?i] hd w5
  have cr: "committed_record w' ?i ?i = Some (d\<lparr>rd_md := Some brmNew\<rparr>)" by simp
  from c h have "Merkle brmNew = spec_MerkleRoot X files" by (simp add: spec_MerkleRoot_def)
  with d have m: "Merkle brmNew = spec_MerkleRoot X fs" by simp
  from c h d have ne: "fs \<noteq> []" by auto
  from cr d m ne show ?thesis by simp
qed

lemma UpdateUnvettedRecord_Inr:
  assumes "UpdateUnvettedRecord X token mdAppend mdOverwrite filesAdd filesDel w0 = (Inr brmNew, w')"
  obtains fa w w1 w3 where
    "allow_empty (verifyContent X (mdAppend @ mdOverwrite) filesAdd filesDel) = Inr fa"
    "updateRecord X token mdAppend mdOverwrite fa filesDel w = (Inr brmNew, w1)"
    "gitCheckout X Unvetted ''master'' w1 = (Inr (), w3)"
    "w' = w3\<lparr>w_lock := False\<rparr>"
  using assms unfolding UpdateUnvettedRecord_def with_lock_def
  by (auto simp: bindE_def split: prod.splits sum.splits if_splits unit.splits)

lemma UpdateUnvettedRecord_merkle:
  assumes "UpdateUnvettedRecord X token mdAppend mdOverwrite filesAdd filesDel w0 = (Inr brmNew, w')"
  shows "\<exists>d fs. committed_record w' (hex_EncodeToString token) (hex_EncodeToString token) = Some d
           \<and> rd_md d = Some brmNew \<and> rd_payload d = Some fs \<and> fs \<noteq> []
           \<and> Merkle brmNew = spec_MerkleRoot X fs"
proof -
  from assms obtain fa w w1 w3 where
    u: "updateRecord X token mdAppend mdOverwrite fa filesDel w = (Inr brmNew, w1)"
    and co: "gitCheckout X Unvetted ''master'' w1 = (Inr (), w3)"
    and w': "w' = w3\<lparr>w_lock := False\<rparr>"
    by (rule UpdateUnvettedRecord_Inr)
  from gitCheckout_post [OF co]
  have "r_branches (w_unvetted w3) = r_branches (w_unvetted w1)" by (simp add: repo_of_def)
  from committed_record_cong [OF this] w'
  have "committed_record w' (hex_EncodeToString token) (hex_EncodeToString token)
      = committed_record w1 (hex_EncodeToString token) (hex_EncodeToString token)" by simp
  with updateRecord_merkle [OF u] show ?thesis by simp
qed

lemma verifyContent_cook_Inr:
  "verifyContent_cook X files acc = Inr fa \<Longrightarrow>
     map f_name fa = map f_name acc @ map File_Name files
     \<and> ((\<forall>f\<in>set acc. f_digest f = x_sha256 X (f_payload f))
          \<longrightarrow> (\<forall>f\<in>set fa. f_digest f = x_sha256 X (f_payload f)))"
proof (induction files arbitrary: acc)
  case Nil
  then show ?case by simp
next
  case (Cons f files)
  from Cons.prems obtain payload where
    r: "verifyContent_cook X files
          (acc @ [\<lparr>f_name = File_Name f, f_digest = x_sha256 X payload, f_payload = payload\<rparr>]) = Inr fa"
    by (auto simp: Let_def split: if_splits option.splits)
  from Cons.IH [OF r] show ?case by simp
qed

lemma verifyContent_names_None:
  "verifyContent_names files filesDel idx = None \<Longrightarrow>
     \<forall>i\<in>set idx. \<forall>j<length files. i \<noteq> j \<longrightarrow> File_Name (files ! i) \<noteq> File_Name (files ! j)"
  by (induction idx) (auto simp: list_ex_iff split: if_splits)

lemma verifyContent_Inr:
  assumes "verifyContent X md files filesDel = Inr fa"
  shows "fa \<noteq> []" and "distinct (map f_name fa)"
    and "\<forall>f\<in>set fa. f_digest f = x_sha256 X (f_payload f)"
proof -
  from assms have ne: "files \<noteq> []"
    and nm: "verifyContent_names files filesDel [0..<length files] = None"
    and ck: "verifyContent_cook X files [] = Inr fa"
    by (auto simp: verifyContent_def split: list.splits if_splits option.splits)
  note c = verifyContent_cook_Inr [OF ck]
  from c have names: "map f_name fa = map File_Name files" by simp
  with ne show "fa \<noteq> []" by auto
  from verifyContent_names_None [OF nm]
  have "distinct (map File_Name files)" by (auto simp: distinct_conv_nth)
  with names show "distinct (map f_name fa)" by simp
  from c show "\<forall>f\<in>set fa. f_digest f = x_sha256 X (f_payload f)" by simp
qed

lemma update_fresh: "k \<notin> fst ` set al \<Longrightarrow> AList.update k v al = al @ [(k, v)]"
  by (induction al) auto

lemma fold_update_fresh:
  "distinct (map f_name fa) \<Longrightarrow> set (map f_name fa) \<inter> fst ` set fs = {} \<Longrightarrow>
     fold (\<lambda>f. AList.update (f_name f) (f_payload f)) fa fs
       = fs @ map (\<lambda>f. (f_name f, f_payload f)) fa"
proof (induction fa arbitrary: fs)
  case Nil
  show ?case by simp
next
  case (Cons f fa)
  from Cons.prems have 1: "f_name f \<notin> fst ` set fs" by auto
  from Cons.prems have 2: "distinct (map f_name fa)"
    and 3: "set (map f_name fa) \<inter> fst ` set (fs @ [(f_name f, f_payload f)]) = {}" by auto
  from Cons.IH [OF 2 3] 1 show ?case by (simp add: update_fresh)
qed

lemma WriteFile_payload_Inr:
  "WriteFile_payload X Unvetted i n b w = (Inr u, w') \<Longrightarrow> workdir w i = Some d \<Longrightarrow>
     rd_payload d = Some fs \<Longrightarrow>
     workdir w' i = Some (d\<lparr>rd_payload := Some (AList.update n b fs)\<rparr>)"
  by (auto simp: WriteFile_payload_def workdir_def update_conv' wt_def split: if_splits option.splits)

lemma newRecord_files_Inr:
  "newRecord_files X i fa hashes w = (Inr hs, w') \<Longrightarrow> workdir w i = Some d \<Longrightarrow>
     rd_payload d = Some fs \<Longrightarrow>
     hs = hashes @ map (\<lambda>f. go_copy (make_bytes sha256_Size) (f_digest f)) fa
     \<and> workdir w' i
         = Some (d\<lparr>rd_payload := Some (fold (\<lambda>f. AList.update (f_name f) (f_payload f)) fa fs)\<rparr>)"
proof (induction fa arbitrary: hashes w d fs)
  case Nil
  then show ?case by simp
next
  case (Cons f fa)
  from Cons.prems(1) obtain w1 where
    wf: "WriteFile_payload X Unvetted i (f_name f) (f_payload f) w = (Inr (), w1)"
    and r: "newRecord_files X i fa (hashes @ [go_copy (make_bytes sha256_Size) (f_digest f)]) w1
             = (Inr hs, w')"
    by (auto simp: bindE_Inr gitAdd_def split: if_splits)
  note 1 = WriteFile_payload_Inr [OF wf Cons.prems(2,3)]
  from Cons.IH [OF r 1] show ?case by simp
qed

lemma newRecord_files_refs [simp]: "refs (snd (newRecord_files X i fa hs w)) = refs w"
proof (induction fa arbitrary: w hs)
  case Nil
  show ?case by simp
next
  case (Cons f fa)
  show ?case
    by simp (intro bindE_keeps; simp add: Cons.IH)
qed

lemma newRecord_metadata_refs [simp]: "refs (snd (newRecord_metadata X i md w)) = refs w"
proof (induction md arbitrary: w)
  case Nil
  show ?case by simp
next
  case (Cons m md)
  show ?case
    by simp (intro bindE_keeps; simp add: Cons.IH)
qed

lemma write_stream_Inr:
  "write_stream X Unvetted i k s a w = (Inr u, w') \<Longrightarrow> workdir w i = Some d \<Longrightarrow>
     \<exists>d'. workdir w' i = Some d' \<and> rd_payload d' = rd_payload d \<and> rd_md d' = rd_md d"
  by (auto simp: write_stream_def workdir_def update_conv' wt_def split: if_splits option.splits)

lemma newRecord_metadata_Inr:
  "newRecord_metadata X i md w = (Inr u, w') \<Longrightarrow> workdir w i = Some d \<Longrightarrow>
     \<exists>d'. workdir w' i = Some d' \<and> rd_payload d' = rd_payload d \<and> rd_md d' = rd_md d"
proof (induction md arbitrary: w d)
  case Nil
  then show ?case by simp
next
  case (Cons m md)
  from Cons.prems(1) obtain w1 where
    ws: "write_stream X Unvetted i (MS_ID m) (MS_Payload m) False w = (Inr (), w1)"
    and r: "newRecord_metadata X i md w1 = (Inr u, w')"
    by (auto simp: bindE_Inr gitAdd_def split: if_splits)
  from write_stream_Inr [OF ws Cons.prems(2)] obtain d1 where
    1: "workdir w1 i = Some d1" "rd_payload d1 = rd_payload d" "rd_md d1 = rd_md d" by blast
  from Cons.IH [OF r 1(1)] 1 show ?case by auto
qed

lemma os_MkdirAll_payload_Inr:
  "os_MkdirAll_payload X Unvetted i w = (Inr u, w') \<Longrightarrow>
     \<exists>d fs. workdir w' i = Some d \<and> rd_payload d = Some fs
       \<and> (workdir w i = None \<longrightarrow> fs = []) \<and> refs w' = refs w"
  by (auto simp: os_MkdirAll_payload_def workdir_def update_conv' wt_def
      split: if_splits option.splits)

lemma gitNewBranch_Inr:
  "gitNewBranch X Unvetted b w = (Inr u, w') \<Longrightarrow>
     workdir w' i = workdir w i \<and> r_head (w_unvetted w') = b
     \<and> map_of (r_branches (w_unvetted w)) b = None
     \<and> (\<forall>b'. b' \<noteq> b \<longrightarrow> history (w_unvetted w') b' = history (w_unvetted w) b')"
  by (auto simp: gitNewBranch_def Let_def workdir_def wt_def repo_of_def set_repo_def history_def
      map_add_def split: if_splits option.splits)

lemma newRecord_Inr:
  assumes "newRecord X token metadata fa w = (Inr brm, w')"
  obtains a1 a2 hashes a3 a4 a5 where
    "gitNewBranch X Unvetted (hex_EncodeToString token) w = (Inr (), a1)"
    "os_MkdirAll_payload X Unvetted (hex_EncodeToString token) a1 = (Inr (), a2)"
    "newRecord_files X (hex_EncodeToString token) fa [] a2 = (Inr hashes, a3)"
    "newRecord_metadata X (hex_EncodeToString token) metadata a3 = (Inr (), a4)"
    "createMD X Unvetted (hex_EncodeToString token) MDStatusUnvetted 1 hashes token a4 = (Inr brm, a5)"
    "gitCommit X Unvetted (''Add record '' @ hex_EncodeToString token) a5 = (Inr (), w')"
  using assms unfolding newRecord_def Let_def
  by (auto simp: bindE_Inr gitAdd_def split: if_splits)

lemma newRecord_merkle:
  assumes nr: "newRecord X token metadata fa w = (Inr brm, w')"
    and dg: "\<forall>f\<in>set fa. f_digest f = x_sha256 X (f_payload f)"
    and ds: "distinct (map f_name fa)"
  shows "Merkle brm = spec_MerkleRoot X (map (\<lambda>f. (f_name f, f_payload f)) fa)"
    and "workdir w (hex_EncodeToString token) = None \<Longrightarrow>
         \<exists>d. committed_record w' (hex_EncodeToString token) (hex_EncodeToString token) = Some d
           \<and> rd_md d = Some brm
           \<and> rd_payload d = Some (map (\<lambda>f. (f_name f, f_payload f)) fa)"
    and "map_of (r_branches (w_unvetted w)) (hex_EncodeToString token) = None"
    and "b \<noteq> hex_EncodeToString token \<Longrightarrow> history (w_unvetted w') b = history (w_unvetted w) b"
proof -
  let ?i = "hex_EncodeToString token"
  from nr obtain a1 a2 hashes a3 a4 a5 where
    nb: "gitNewBranch X Unvetted ?i w = (Inr (), a1)"
    and mk: "os_MkdirAll_payload X Unvetted ?i a1 = (Inr (), a2)"
    and nf: "newRecord_files X ?i fa [] a2 = (Inr hashes, a3)"
    and nm: "newRecord_metadata X ?i metadata a3 = (Inr (), a4)"
    and cm: "createMD X Unvetted ?i MDStatusUnvetted 1 hashes token a4 = (Inr brm, a5)"
    and gc: "gitCommit X Unvetted (''Add record '' @ ?i) a5 = (Inr (), w')"
    by (rule newRecord_Inr)
  note n = gitNewBranch_Inr [OF nb]
  from os_MkdirAll_payload_Inr [OF mk] obtain d2 fs where
    d2: "workdir a2 ?i = Some d2" "rd_payload d2 = Some fs" "workdir a1 ?i = None \<longrightarrow> fs = []"
    and r2: "refs a2 = refs a1" by auto
  note f = newRecord_files_Inr [OF nf d2(1,2)]
  have r3: "refs a3 = refs a2" using newRecord_files_refs [of X ?i fa "[]" a2] nf by simp
  have r4: "refs a4 = refs a3" using newRecord_metadata_refs [of X ?i metadata a3] nm by simp
  note c = createMD_Inr [OF cm]
  from r2 r3 r4 c have "refs a5 = refs a1" by simp
  note e = refs_eq [OF this]
  from e n have hd: "r_head (w_unvetted a5) = ?i" by simp
  from f dg have h: "hashes = map (\<lambda>f. go_copy (make_bytes sha256_Size) (x_sha256 X (f_payload f))) fa"
    by simp
  with c show "Merkle brm = spec_MerkleRoot X (map (\<lambda>f. (f_name f, f_payload f)) fa)"
    by (simp add: spec_MerkleRoot_def comp_def)
  from n show "map_of (r_branches (w_unvetted w)) ?i = None" by simp
  note g = gitCommit_committed [OF gc]
  {
    assume "b \<noteq> ?i"
    with g hd e n show "history (w_unvetted w') b = history (w_unvetted w) b"
      by (simp add: history_def)
  }
  {
    assume "workdir w ?i = None"
    with n d2 have fs: "fs = []" by simp
    from f fs fold_update_fresh [OF ds, of "[]"]
    have 3: "workdir a3 ?i = Some (d2\<lparr>rd_payload := Some (map (\<lambda>f. (f_name f, f_payload f)) fa)\<rparr>)"
      by simp
    from newRecord_metadata_Inr [OF nm 3] obtain d4 where
      4: "workdir a4 ?i = Some d4" "rd_payload d4 = Some (map (\<lambda>f. (f_name f, f_payload f)) fa)"
      by auto
    from c 4 have "workdir a5 ?i = Some (d4\<lparr>rd_md := Some brm\<rparr>)" by auto
    with g [of ?i] hd 4
    show "\<exists>d. committed_record w' ?i ?i = Some d \<and> rd_md d = Some brm
           \<and> rd_payload d = Some (map (\<lambda>f. (f_name f, f_payload f)) fa)"
      by simp
  }
qed

lemma New_Inr:
  assumes "New X metadata files w0 = (Inr brm, w')"
  obtains fa n2 n3 n4 n5 where
    "verifyContent X metadata files [] = Inr fa"
    "gitPull X Unvetted True n2 = (Inr (), n3)"
    "newRecord X (x_random X) metadata fa n3 = (Inr brm, n4)"
    "gitCheckout X Unvetted ''master'' n4 = (Inr (), n5)"
    "w' = n5\<lparr>w_lock := False\<rparr>"
  using assms unfolding New_def with_lock_def
  by (auto simp: bindE_def split: prod.splits sum.splits if_splits unit.splits)

lemma New_merkle:
  assumes "New X metadata files w0 = (Inr brm, w')"
  shows "\<exists>fa. verifyContent X metadata files [] = Inr fa
     \<and> Merkle brm = spec_MerkleRoot X (map (\<lambda>f. (f_name f, f_payload f)) fa)
     \<and> (committed_record w' ''master'' (hex_EncodeToString (x_random X)) = None \<longrightarrow>
          (\<exists>d. committed_record w' (hex_EncodeToString (x_random X)) (hex_EncodeToString (x_random X))
                 = Some d
             \<and> rd_md d = Some brm
             \<and> rd_payload d = Some (map (\<lambda>f. (f_name f, f_payload f)) fa)))"
proof -
  let ?i = "hex_EncodeToString (x_random X)"
  from assms obtain fa n2 n3 n4 n5 where
    vc: "verifyContent X metadata files [] = Inr fa"
    and pl: "gitPull X Unvetted True n2 = (Inr (), n3)"
    and nr: "newRecord X (x_random X) metadata fa n3 = (Inr brm, n4)"
    and co: "gitCheckout X Unvetted ''master'' n4 = (Inr (), n5)"
    and w': "w' = n5\<lparr>w_lock := False\<rparr>"
    by (rule New_Inr)
  note v = verifyContent_Inr [OF vc]
  note m = newRecord_merkle [OF nr v(3) v(2)]
  note p = gitPull_Inr [OF pl]
  from gitCheckout_post [OF co]
  have "r_branches (w_unvetted n5) = r_branches (w_unvetted n4)" by (simp add: repo_of_def)
  note cc = committed_record_cong [OF this]
  from m(3) p have ne: "''master'' \<noteq> ?i" by auto
  from p have "workdir n3 ?i = committed_record n3 ''master'' ?i"
    by (simp add: workdir_def committed_record_def wt_def repo_of_def dirty_def head_tree_def
        branch_tree_def)
  also from m(4) [OF ne] have "\<dots> = committed_record n4 ''master'' ?i"
    by (simp add: committed_record_def branch_tree_def)
  finally have fr: "workdir n3 ?i = committed_record w' ''master'' ?i"
    using cc w' by simp
  from cc w' have "committed_record w' ?i ?i = committed_record n4 ?i ?i" by simp
  with m(1) m(2) fr vc show ?thesis by simp
qed

text \<open>C3: the record metadata that \<open>New\<close> returns has the Merkle root of the digests of
  the validated input files, in sorted order; when master has no directory of the new
  token, the commit on the branch of the token stores this metadata with exactly the
  input files as payload. The record metadata that a successful \<open>UpdateUnvettedRecord\<close>
  returns is stored in the commit on the record branch, and its Merkle root is the root
  of the sorted digests of the payload files of that commit.\<close>

theorem merkle_root_of_written_record:
  "(New X metadata files w0 = (Inr brm, w') \<longrightarrow>
      (\<exists>fa. verifyContent X metadata files [] = Inr fa
         \<and> Merkle brm = spec_MerkleRoot X (map (\<lambda>f. (f_name f, f_payload f)) fa)
         \<and> (committed_record w' ''master'' (hex_EncodeToString (x_random X)) = None \<longrightarrow>
              (\<exists>d. committed_record w' (hex_EncodeToString (x_random X))
                      (hex_EncodeToString (x_random X)) = Some d
                 \<and> rd_md d = Some brm
                 \<and> rd_payload d = Some (map (\<lambda>f. (f_name f, f_payload f)) fa)))))
   \<and> (UpdateUnvettedRecord X token mdAppend mdOverwrite filesAdd filesDel v0 = (Inr brmNew, v') \<longrightarrow>
        (\<exists>d fs. committed_record v' (hex_EncodeToString token) (hex_EncodeToString token) = Some d
           \<and> rd_md d = Some brmNew \<and> rd_payload d = Some fs \<and> fs \<noteq> []
           \<and> Merkle brmNew = spec_MerkleRoot X fs))"
  by (intro conjI impI New_merkle UpdateUnvettedRecord_merkle)

lemma X0_random: "x_random X0 = tok"
  by (simp add: X0_def tok_def)

lemma ex_New_ok:
  "\<exists>w'. New X0 [] [file_b] (world_of repo_v repo_v)
          = (Inr \<lparr>Version = 1, Status = MDStatusUnvetted, Merkle = 120 # replicate 31 0,
                  Timestamp = 1000, Token = tok\<rparr>, w')
     \<and> committed_record w' ''master'' tid = None"
  unfolding New_def newRecord_def committed_record_def Let_def
  apply (simp only: verify_file_b sum.case)
  apply (simp add: X0_fails X0_random tid_def [symmetric] op_defs gitNewBranch_def gitPull_def
      os_MkdirAll_payload_def write_stream_def WriteFile_payload_def createMD_def merkle_Root_def
      go_copy_def make_bytes_def sha256_Size_def world_of_def repo_v_def st_defs empty_tree_def
      Let_def)
  apply (simp add: X0_def)
  done

lemma ex_update_ok:
  "\<exists>w'. UpdateUnvettedRecord X0 tok [] [] [file_b] [] (world_of repo_u repo_v)
          = (Inr \<lparr>Version = 2, Status = MDStatusIterationUnvetted,
                  Merkle = [1, 2, 3] @ replicate 29 0, Timestamp = 1000, Token = tok\<rparr>, w')"
  unfolding UpdateUnvettedRecord_def updateRecord_def tid_def [symmetric] Let_def
  apply (simp only: append.simps verify_file_b allow_empty_def sum.case)
  by (simp add: checkoutRecordBranch_def gitBranches_def tid_IsDigest
      op_defs gitNewBranch_def gitPull_def
      loadMD_def updateMetadata_def WriteFile_payload_def ReadDir_payload_def gitDiff_def
      createMD_def merkle_Root_def go_copy_def make_bytes_def sha256_Size_def
      world_of_def repo_u_def repo_v_def X0_def st_defs rec_tree_def rec_md_def
      Let_def)

text \<open>The theorem at a new record with one file, and at an update of the example record
  that adds a file.\<close>

theorem merkle_root_of_written_record_witness:
  "(\<exists>w' d. New X0 [] [file_b] (world_of repo_v repo_v)
          = (Inr \<lparr>Version = 1, Status = MDStatusUnvetted, Merkle = 120 # replicate 31 0,
                  Timestamp = 1000, Token = tok\<rparr>, w')
       \<and> committed_record w' tid tid = Some d
       \<and> rd_md d = Some \<lparr>Version = 1, Status = MDStatusUnvetted, Merkle = 120 # replicate 31 0,
                  Timestamp = 1000, Token = tok\<rparr>
       \<and> rd_payload d = Some [(''b.txt'', [120])])
   \<and> spec_MerkleRoot X0 [(''b.txt'', [120])] = 120 # replicate 31 0
   \<and> (\<exists>w' d fs. UpdateUnvettedRecord X0 tok [] [] [file_b] [] (world_of repo_u repo_v)
          = (Inr \<lparr>Version = 2, Status = MDStatusIterationUnvetted,
                  Merkle = [1, 2, 3] @ replicate 29 0, Timestamp = 1000, Token = tok\<rparr>, w')
       \<and> committed_record w' tid tid = Some d
       \<and> rd_md d = Some \<lparr>Version = 2, Status = MDStatusIterationUnvetted,
                  Merkle = [1, 2, 3] @ replicate 29 0, Timestamp = 1000, Token = tok\<rparr>
       \<and> rd_payload d = Some fs \<and> fs \<noteq> []
       \<and> spec_MerkleRoot X0 fs = [1, 2, 3] @ replicate 29 0)"
proof -
  let ?n = "\<lparr>Version = 1, Status = MDStatusUnvetted, Merkle = 120 # replicate 31 0,
                  Timestamp = 1000, Token = tok\<rparr>"
  let ?u = "\<lparr>Version = 2, Status = MDStatusIterationUnvetted,
                  Merkle = [1, 2, 3] @ replicate 29 0, Timestamp = 1000, Token = tok\<rparr>"
  from ex_New_ok obtain w1 where
    n: "New X0 [] [file_b] (world_of repo_v repo_v) = (Inr ?n, w1)"
    and fr: "committed_record w1 ''master'' tid = None" by blast
  from ex_update_ok obtain w2 where
    u: "UpdateUnvettedRecord X0 tok [] [] [file_b] [] (world_of repo_u repo_v) = (Inr ?u, w2)"
    by blast
  note th = merkle_root_of_written_record [where X = X0 and metadata = "[]" and files = "[file_b]"
      and ?w0.0 = "world_of repo_v repo_v" and brm = ?n and w' = w1
      and token = tok and mdAppend = "[]" and mdOverwrite = "[]" and filesAdd = "[file_b]"
      and filesDel = "[]" and ?v0.0 = "world_of repo_u repo_v" and brmNew = ?u and v' = w2,
      unfolded X0_random, folded tid_def]
  from th [THEN conjunct1, THEN mp, OF n] obtain fa where
    v: "verifyContent X0 [] [file_b] [] = Inr fa"
    and m: "Merkle ?n = spec_MerkleRoot X0 (map (\<lambda>f. (f_name f, f_payload f)) fa)"
    and cr: "committed_record w1 ''master'' tid = None \<longrightarrow>
              (\<exists>d. committed_record w1 tid tid = Some d \<and> rd_md d = Some ?n
                 \<and> rd_payload d = Some (map (\<lambda>f. (f_name f, f_payload f)) fa))"
    by iprover
  from v have fa: "map (\<lambda>f. (f_name f, f_payload f)) fa = [(''b.txt'', [120])]"
    by (auto simp: verify_file_b)
  from cr [THEN mp, OF fr] obtain d1 where
    a1: "committed_record w1 tid tid = Some d1" "rd_md d1 = Some ?n"
       "rd_payload d1 = Some [(''b.txt'', [120])]"
    unfolding fa by iprover
  from m have b: "spec_MerkleRoot X0 [(''b.txt'', [120])] = 120 # replicate 31 0"
    unfolding fa by simp
  from th [THEN conjunct2, THEN mp, OF u] obtain d fs where
    c: "committed_record w2 tid tid = Some d" "rd_md d = Some ?u"
       "rd_payload d = Some fs" "fs \<noteq> []" "Merkle ?u = spec_MerkleRoot X0 fs"
    by iprover
  from c(5) have c5: "spec_MerkleRoot X0 fs = [1, 2, 3] @ replicate 29 0" by simp
  show ?thesis
    apply (intro conjI)
      apply (rule exI [of _ w1], rule exI [of _ d1])
      apply (simp only: n a1 simp_thms)
     apply (rule b)
    apply (rule exI [of _ w2], rule exI [of _ d], rule exI [of _ fs])
    apply (simp only: u c c5 simp_thms not_False_eq_True)
    done
qed

end
